theory Spec2Isabelle
  imports Main
begin

section \<open>Bounded-context conversation history manager (socratic\_tutor\_v6.py)\<close>

text \<open>
  A shallow embedding of the history manager of \<^verbatim>\<open>src/socratic_tutor_v6.py\<close>:
  \<^verbatim>\<open>count_tokens\<close>, \<^verbatim>\<open>format_history_for_prompt\<close>, \<^verbatim>\<open>summarize_history\<close>,
  \<^verbatim>\<open>manage_history_and_get_context\<close> and \<^verbatim>\<open>configure_gemini\<close>.

  Conventions of the embedding.
  \<^item> Python text is a \<^typ>\<open>string\<close>, one \<^typ>\<open>char\<close> per code point (code points below 256).
  \<^item> The remote model (token counting, text generation) is an external collaborator. Its
    behaviour is a pair of functions over an abstract world \<open>'w\<close> that every call may change,
    so a non-deterministic or failing service is covered.
  \<^item> Everything the functions print and every request they send is appended to a trace.
  \<^item> An exception that leaves a function is a value \<open>Inl e\<close> of the result.
  \<^item> The module-level constants are the fields of a record \<open>config\<close>; \<open>source_config\<close>
    holds the values written in the file.
\<close>

subsection \<open>Text helpers of the Python runtime\<close>

definition NL :: string where
  "NL = ''\<newline>''"

text \<open>\<^verbatim>\<open>sep.join(parts)\<close>.\<close>

fun join :: "string \<Rightarrow> string list \<Rightarrow> string" where
  "join sep [] = []"
| "join sep [x] = x"
| "join sep (x # y # ys) = x @ sep @ join sep (y # ys)"

text \<open>\<^verbatim>\<open>s.split('\n')\<close>: always at least one piece, empty pieces kept.\<close>

fun split_lines :: "string \<Rightarrow> string list" where
  "split_lines [] = [[]]"
| "split_lines (c # cs) =
     (if c = CHR 0x0A then [] # split_lines cs
      else (case split_lines cs of
              [] \<Rightarrow> [[c]]
            | line # rest \<Rightarrow> (c # line) # rest))"

text \<open>\<^verbatim>\<open>str.isspace\<close> on the code points below 256: 9-13, 28-32, 133 and 160.\<close>

definition isspace :: "char \<Rightarrow> bool" where
  "isspace c \<longleftrightarrow> c \<in> set [CHR 0x09, CHR 0x0A, CHR 0x0B, CHR 0x0C, CHR 0x0D,
                          CHR 0x1C, CHR 0x1D, CHR 0x1E, CHR 0x1F, CHR 0x20, CHR 0x85, CHR 0xA0]"

text \<open>\<^verbatim>\<open>s.strip()\<close>.\<close>

definition strip :: "string \<Rightarrow> string" where
  "strip s = rev (dropWhile isspace (rev (dropWhile isspace s)))"

text \<open>\<^verbatim>\<open>s.capitalize()\<close> on ASCII text (it is applied to role names only).\<close>

definition ascii_upper :: "char \<Rightarrow> char" where
  "ascii_upper c =
     (case map_of (zip ''abcdefghijklmnopqrstuvwxyz'' ''ABCDEFGHIJKLMNOPQRSTUVWXYZ'') c of
        Some u \<Rightarrow> u | None \<Rightarrow> c)"

definition ascii_lower :: "char \<Rightarrow> char" where
  "ascii_lower c =
     (case map_of (zip ''ABCDEFGHIJKLMNOPQRSTUVWXYZ'' ''abcdefghijklmnopqrstuvwxyz'') c of
        Some l \<Rightarrow> l | None \<Rightarrow> c)"

fun capitalize :: "string \<Rightarrow> string" where
  "capitalize [] = []"
| "capitalize (c # cs) = ascii_upper c # map ascii_lower cs"

text \<open>Decimal rendering of an integer inside an f-string.\<close>

function str_of_nat :: "nat \<Rightarrow> string" where
  "str_of_nat n =
     (if n < 10 then [''0123456789'' ! n]
      else str_of_nat (n div 10) @ [''0123456789'' ! (n mod 10)])"
  by pat_completeness auto
termination
  by (relation "measure id") auto

definition str_of_int :: "int \<Rightarrow> string" where
  "str_of_int i = (if i < 0 then CHR ''-'' # str_of_nat (nat (- i)) else str_of_nat (nat i))"

subsection \<open>\<^verbatim>\<open>int(n * c)\<close> for an integer and a float constant\<close>

text \<open>
  Python converts the integer to a double (round to nearest, ties to even; OverflowError
  when the result would not be finite), multiplies two doubles (one rounding of the exact
  product) and truncates toward zero. A positive double constant below 1 is given by its
  numerator over a power of two: 0.7 is \<open>6305039478318694 / 2^53\<close>.
\<close>

function bit_length :: "nat \<Rightarrow> nat" where
  "bit_length n = (if n = 0 then 0 else Suc (bit_length (n div 2)))"
  by pat_completeness auto
termination
  by (relation "measure id") auto

definition round53 :: "nat \<Rightarrow> nat" where
  "round53 n =
     (if bit_length n \<le> 53 then n
      else let s = bit_length n - 53;
               q = n div 2 ^ s;
               r = n mod 2 ^ s;
               half = 2 ^ (s - 1)
           in (if r > half \<or> (r = half \<and> odd q) then q + 1 else q) * 2 ^ s)"

definition py_float_of_int :: "int \<Rightarrow> int option" where
  "py_float_of_int t =
     (let r = round53 (nat \<bar>t\<bar>)
      in if r \<ge> 2 ^ 1024 then None else Some (sgn t * int r))"

type_synonym pyfloat = "nat \<times> nat"

definition py_int_times_float :: "int \<Rightarrow> pyfloat \<Rightarrow> int option" where
  "py_int_times_float t c =
     (case py_float_of_int t of
        None \<Rightarrow> None
      | Some f \<Rightarrow> Some (sgn f * int (round53 (nat \<bar>f\<bar> * fst c) div 2 ^ snd c)))"

definition float_0_7 :: pyfloat where
  "float_0_7 = (6305039478318694, 53)"

definition float_0_80 :: pyfloat where
  "float_0_80 = (7205759403792794, 53)"

subsection \<open>Configuration (module-level constants, lines 16-27)\<close>

record config =
  API_KEY :: "string option"
  MODEL_NAME :: string
  MAX_CONTEXT_WINDOW :: int
  HISTORY_TOKEN_BUDGET_RATIO :: pyfloat
  LAST_VERBATIM_TURNS :: int
  PROMPT_OVERHEAD_ESTIMATE :: int

text \<open>The values in the file; the API key comes from the environment.\<close>

definition source_config :: "string option \<Rightarrow> config" where
  "source_config key =
     \<lparr> API_KEY = key,
       MODEL_NAME = ''gemini-1.5-flash-latest'',
       MAX_CONTEXT_WINDOW = 32000,
       HISTORY_TOKEN_BUDGET_RATIO = float_0_80,
       LAST_VERBATIM_TURNS = 10,
       PROMPT_OVERHEAD_ESTIMATE = 500 \<rparr>"

text \<open>\<^verbatim>\<open>int(MAX_CONTEXT_WINDOW * HISTORY_TOKEN_BUDGET_RATIO)\<close> (line 211).\<close>

definition history_token_budget :: "config \<Rightarrow> int option" where
  "history_token_budget cfg =
     py_int_times_float (MAX_CONTEXT_WINDOW cfg) (HISTORY_TOKEN_BUDGET_RATIO cfg)"

subsection \<open>Turns, the remote model, the program state\<close>

text \<open>
  Every turn that \<^verbatim>\<open>run_tutor\<close> appends is a dictionary with the two keys
  \<^verbatim>\<open>role\<close>, which is \<^verbatim>\<open>"user"\<close> or \<^verbatim>\<open>"assistant"\<close>, and \<^verbatim>\<open>content\<close>
  (lines 480-509), so a turn is a record and the defaults of \<^verbatim>\<open>turn.get\<close> never apply.
\<close>

datatype role = User | Assistant

fun role_str :: "role \<Rightarrow> string" where
  "role_str User = ''user''"
| "role_str Assistant = ''assistant''"

record turn =
  role :: role
  content :: string

text \<open>What a call of the remote API may raise (all are subclasses of Exception).\<close>

datatype api_failure = PermissionDenied string | GoogleAPIError string | OtherException string

fun failure_text :: "api_failure \<Rightarrow> string" where
  "failure_text (PermissionDenied m) = m"
| "failure_text (GoogleAPIError m) = m"
| "failure_text (OtherException m) = m"

text \<open>PermissionDenied is a subclass of GoogleAPIError.\<close>

fun is_google_api_error :: "api_failure \<Rightarrow> bool" where
  "is_google_api_error (PermissionDenied m) = True"
| "is_google_api_error (GoogleAPIError m) = True"
| "is_google_api_error (OtherException m) = False"

text \<open>
  \<open>GenText t\<close>: the response has candidates and parts, the first part has a text, and
  \<^verbatim>\<open>response.text\<close> is \<open>t\<close>. \<open>GenUnusable\<close>: one of the three checks of line 188 fails.
\<close>

datatype gen_outcome = GenText string | GenUnusable | GenRaises api_failure

datatype tok_outcome = TotalTokens int | TokRaises api_failure

record 'w model =
  generate_content :: "'w \<Rightarrow> string \<Rightarrow> gen_outcome \<times> 'w"
  count_tokens_rpc :: "'w \<Rightarrow> string \<Rightarrow> tok_outcome \<times> 'w"

datatype event = Stdout string | Stderr string | GenerateRequest string | CountRequest string

datatype py_exception = OverflowError | SystemExit int

text \<open>
  \<open>remote\<close> is the world behind the API, \<open>model_instance\<close> the global of line 30,
  \<open>turn_lists\<close> the store of list objects (a turn log is passed by reference),
  \<open>trace\<close> the prints and requests so far, oldest first.
\<close>

record 'w state =
  remote :: 'w
  model_instance :: "'w model option"
  turn_lists :: "nat \<Rightarrow> turn list"
  trace :: "event list"

definition emit :: "event \<Rightarrow> 'w state \<Rightarrow> 'w state" where
  "emit e st = st\<lparr>trace := trace st @ [e]\<rparr>"

subsection \<open>\<^verbatim>\<open>count_tokens\<close> (lines 100-109)\<close>

definition count_tokens :: "string \<Rightarrow> 'w state \<Rightarrow> int \<times> 'w state" where
  "count_tokens text st =
     (case model_instance st of
        None \<Rightarrow> (0, emit (Stderr ''Error: Model not configured for token counting.'') st)
      | Some m \<Rightarrow>
          if text = [] then (0, st)
          else
            (case count_tokens_rpc m (remote st) text of
               (TotalTokens n, w) \<Rightarrow> (n, (emit (CountRequest text) st)\<lparr>remote := w\<rparr>)
             | (TokRaises e, w) \<Rightarrow>
                 (0, emit (Stderr
                       ((if is_google_api_error e
                         then NL @ ''Warning: API error during token counting: ''
                         else NL @ ''Warning: Unexpected error during token counting: '')
                        @ failure_text e @ ''. Returning 0.''))
                       ((emit (CountRequest text) st)\<lparr>remote := w\<rparr>))))"

subsection \<open>\<^verbatim>\<open>format_history_for_prompt\<close> (lines 111-137)\<close>

definition indent_lines :: "string \<Rightarrow> string" where
  "indent_lines s = join (NL @ ''  '') (split_lines s)"

definition render_turn :: "turn \<Rightarrow> string" where
  "render_turn t =
     ''- '' @ capitalize (role_str (role t)) @ '':'' @ NL @ ''  '' @ indent_lines (strip (content t))"

text \<open>\<^verbatim>\<open>history_parts\<close> after lines 113-121.\<close>

definition history_header :: "string \<Rightarrow> string list" where
  "history_header summary =
     (if summary \<noteq> []
      then [''Summary of Older Conversation Turns:'',
            ''  '' @ indent_lines summary,
            NL @ ''Recent Verbatim Conversation Turns:'']
      else [''Conversation History (Recent Turns Only):''])"

definition format_history_for_prompt :: "string \<Rightarrow> turn list \<Rightarrow> string" where
  "format_history_for_prompt summary verbatim_turns =
     (let history_parts = history_header summary
      in if verbatim_turns = [] then
           (if summary = [] then ''No conversation history for this concept yet.''
            else join NL (history_parts @ [''  (No recent verbatim turns available)'']))
         else join NL (history_parts @ map render_turn verbatim_turns))"

subsection \<open>\<^verbatim>\<open>summarize_history\<close> (lines 139-202)\<close>

definition summary_line :: "turn \<Rightarrow> string" where
  "summary_line t = capitalize (role_str (role t)) @ '': '' @ strip (content t)"

text \<open>The f-string of lines 161-181.\<close>

definition summary_prompt :: "string \<Rightarrow> string \<Rightarrow> string \<Rightarrow> string" where
  "summary_prompt discipline turns_text length_guidance =
     NL @ ''    Context:'' @ NL @
     ''    You are an AI assistant condensing a conversation history for an ongoing tutoring session with a ''
       @ discipline @ '' student.'' @ NL @
     ''    Create a concise summary of the following turns, retaining essential information: key concepts, student misunderstandings, tutor clarifications, and significant examples.''
       @ NL @ NL @
     ''    Conversation Turns to Summarize:'' @ NL @
     ''    ---'' @ NL @
     ''    '' @ turns_text @ NL @
     ''    ---'' @ NL @ NL @
     ''    Task:'' @ NL @
     ''    Generate a concise summary focusing on:'' @ NL @
     ''    - Main economic topics covered.'' @ NL @
     ''    - Recurring student misconceptions or difficulties, especially those contrasting with ''
       @ discipline @ '' intuition.'' @ NL @
     ''    - Key clarifications, insights, or corrections provided by the tutor.'' @ NL @
     ''    - Important examples/analogies used.'' @ NL @
     ''    - Maintain a neutral, objective tone.'' @ NL @
     ''    '' @ length_guidance @ NL @ NL @
     ''    Concise Summary:'' @ NL @
     ''    ''"

text \<open>The guard of line 154: \<^verbatim>\<open>target_tokens and target_tokens > 0\<close>.\<close>

definition wants_length_guidance :: "int option \<Rightarrow> bool" where
  "wants_length_guidance target_tokens =
     (case target_tokens of None \<Rightarrow> False | Some t \<Rightarrow> t \<noteq> 0 \<and> t > 0)"

definition length_guidance_text :: "int \<Rightarrow> int \<Rightarrow> string" where
  "length_guidance_text estimated_words target_tokens =
     ''Aim for a concise summary, ideally around '' @ str_of_int estimated_words
     @ '' words (approx. '' @ str_of_int target_tokens @ '' tokens).''"

text \<open>Lines 182-202: the request and what becomes of its outcome.\<close>

definition request_summary :: "'w model \<Rightarrow> string \<Rightarrow> 'w state \<Rightarrow> string \<times> 'w state" where
  "request_summary model prompt st =
     (case generate_content model (remote st) prompt of
        (GenUnusable, w) \<Rightarrow>
          (''[Summarization failed]'',
           emit (Stderr (NL @ ''Warning: AI summarization failed. Summary may be incomplete.''))
             ((emit (GenerateRequest prompt) st)\<lparr>remote := w\<rparr>))
      | (GenText t, w) \<Rightarrow>
          (case count_tokens (strip t) ((emit (GenerateRequest prompt) st)\<lparr>remote := w\<rparr>) of
             (summary_tokens, st') \<Rightarrow>
               (strip t,
                emit (Stdout (''Summarization complete ('' @ str_of_int summary_tokens @ '' tokens).'')) st'))
      | (GenRaises e, w) \<Rightarrow>
          (if is_google_api_error e
           then (''[Summarization failed due to API error]'',
                 emit (Stderr (NL @ ''Warning: API error during summarization: '' @ failure_text e
                               @ ''. Summary may be incomplete.''))
                   ((emit (GenerateRequest prompt) st)\<lparr>remote := w\<rparr>))
           else (''[Summarization failed due to unexpected error]'',
                 emit (Stderr (NL @ ''Warning: Unexpected error during summarization: '' @ failure_text e
                               @ ''. Summary may be incomplete.''))
                   ((emit (GenerateRequest prompt) st)\<lparr>remote := w\<rparr>))))"

definition summarize_history ::
  "'w model \<Rightarrow> turn list \<Rightarrow> string \<Rightarrow> int option \<Rightarrow> 'w state \<Rightarrow> (py_exception + string) \<times> 'w state" where
  "summarize_history model turns_to_summarize discipline target_tokens st =
     (if turns_to_summarize = [] then (Inr [], st)
      else
        let st1 = emit (Stdout (NL @ ''Summarizing '' @ str_of_nat (length turns_to_summarize)
                                @ '' older conversation turn(s)...'')) st;
            turns_text = join NL (map summary_line turns_to_summarize)
        in if wants_length_guidance target_tokens then
             (case py_int_times_float (the target_tokens) float_0_7 of
                None \<Rightarrow> (Inl OverflowError, st1)
              | Some estimated_words \<Rightarrow>
                  (case request_summary model
                          (summary_prompt discipline turns_text
                             (length_guidance_text estimated_words (the target_tokens)))
                          (emit (Stdout (''(Attempting to limit summary to ~''
                                         @ str_of_int (the target_tokens) @ '' tokens)'')) st1) of
                     (s, st') \<Rightarrow> (Inr s, st')))
           else
             (case request_summary model (summary_prompt discipline turns_text []) st1 of
                (s, st') \<Rightarrow> (Inr s, st')))"

subsection \<open>\<^verbatim>\<open>manage_history_and_get_context\<close> (lines 205-268)\<close>

text \<open>Step 1 (lines 214-216): the older turns and the verbatim window.\<close>

definition split_history :: "config \<Rightarrow> turn list \<Rightarrow> turn list \<times> turn list" where
  "split_history cfg chat =
     (let verbatim_cutoff = nat (max 0 (int (length chat) - LAST_VERBATIM_TURNS cfg))
      in (take verbatim_cutoff chat, drop verbatim_cutoff chat))"

definition verbatim_turns_text :: "turn list \<Rightarrow> string" where
  "verbatim_turns_text verbatim_turns =
     join NL (map (\<lambda>t. role_str (role t) @ '': '' @ content t) verbatim_turns)"

text \<open>
  Steps 2 and 3 (lines 221-233): the first summary, its token count and that of the
  verbatim window.
\<close>

definition initial_measurement ::
  "'w model \<Rightarrow> turn list \<Rightarrow> turn list \<Rightarrow> string \<Rightarrow> 'w state
     \<Rightarrow> (py_exception + (string \<times> int \<times> int)) \<times> 'w state" where
  "initial_measurement model older_turns verbatim_turns discipline st =
     (case (if older_turns \<noteq> [] then summarize_history model older_turns discipline None st
            else (Inr [], st)) of
        (Inl e, st1) \<Rightarrow> (Inl e, st1)
      | (Inr current_summary, st1) \<Rightarrow>
          (case count_tokens current_summary st1 of
             (summary_tokens, st2) \<Rightarrow>
               (case count_tokens (verbatim_turns_text verbatim_turns) st2 of
                  (verbatim_tokens, st3) \<Rightarrow>
                    (Inr (current_summary, summary_tokens, verbatim_tokens), st3))))"

definition discarded_marker :: string where
  "discarded_marker = ''[History discarded due to excessive verbatim length]''"

text \<open>The four messages of step 4 (lines 237, 244, 250 and 257).\<close>

definition overflow_warning :: "int \<Rightarrow> int \<Rightarrow> string" where
  "overflow_warning total_tokens history_budget =
     NL @ ''Warning: Combined history ('' @ str_of_int total_tokens
     @ '' tokens) exceeds budget ('' @ str_of_int history_budget
     @ ''). Re-summarizing older turns...''"

definition hard_overflow_error :: "int \<Rightarrow> int \<Rightarrow> string" where
  "hard_overflow_error verbatim_tokens history_budget =
     ''ERROR: Verbatim turns ('' @ str_of_int verbatim_tokens
     @ '' tokens) alone exceed budget ('' @ str_of_int history_budget
     @ ''). Discarding history.''"

definition targeting_note :: "int \<Rightarrow> string" where
  "targeting_note allowed_summary_tokens =
     ''Targeting summary size: ~'' @ str_of_int allowed_summary_tokens @ '' tokens.''"

definition still_over_warning :: "int \<Rightarrow> int \<Rightarrow> string" where
  "still_over_warning total_tokens history_budget =
     ''Warning: Re-summarization still resulted in '' @ str_of_int total_tokens
     @ '' tokens (budget '' @ str_of_int history_budget
     @ ''). Summary might be truncated by model.''"

text \<open>Step 4 (lines 236-260): the summary and the verbatim turns that go into the context.\<close>

definition enforce_budget ::
  "int \<Rightarrow> 'w model \<Rightarrow> turn list \<Rightarrow> turn list \<Rightarrow> string \<Rightarrow> string \<Rightarrow> int \<Rightarrow> int \<Rightarrow> 'w state
     \<Rightarrow> (py_exception + (string \<times> turn list)) \<times> 'w state" where
  "enforce_budget history_budget model older_turns verbatim_turns discipline
       current_summary summary_tokens verbatim_tokens st =
     (if summary_tokens + verbatim_tokens > history_budget then
        let st1 = emit (Stdout (overflow_warning (summary_tokens + verbatim_tokens) history_budget)) st;
            allowed_summary_tokens = history_budget - verbatim_tokens
        in if allowed_summary_tokens < 0 then
             (Inr (discarded_marker, []),
              emit (Stderr (hard_overflow_error verbatim_tokens history_budget)) st1)
           else if allowed_summary_tokens < summary_tokens \<and> older_turns \<noteq> [] then
             (case summarize_history model older_turns discipline (Some allowed_summary_tokens)
                     (emit (Stdout (targeting_note allowed_summary_tokens)) st1) of
                (Inl e, st2) \<Rightarrow> (Inl e, st2)
              | (Inr new_summary, st2) \<Rightarrow>
                  (case count_tokens new_summary st2 of
                     (new_tokens, st3) \<Rightarrow>
                       (Inr (new_summary, verbatim_turns),
                        if new_tokens + verbatim_tokens > history_budget
                        then emit (Stdout (still_over_warning (new_tokens + verbatim_tokens)
                                             history_budget)) st3
                        else st3)))
           else if older_turns = [] then (Inr ([], verbatim_turns), st1)
           else (Inr (current_summary, verbatim_turns), st1)
      else (Inr (current_summary, verbatim_turns), st))"

text \<open>
  Steps 1 to 4 together: the final \<^verbatim>\<open>current_summary\<close> and \<^verbatim>\<open>verbatim_turns\<close>.
  The turn log is read from the list object \<open>chat_history\<close>; the parameter
  \<open>current_summary\<close> is overwritten at step 2 before it is read.
\<close>

definition budgeted_history ::
  "config \<Rightarrow> 'w model \<Rightarrow> string \<Rightarrow> nat \<Rightarrow> string \<Rightarrow> 'w state
     \<Rightarrow> (py_exception + (string \<times> turn list)) \<times> 'w state" where
  "budgeted_history cfg model current_summary chat_history discipline st =
     (case history_token_budget cfg of
        None \<Rightarrow> (Inl OverflowError, st)
      | Some history_budget \<Rightarrow>
          (case split_history cfg (turn_lists st chat_history) of
             (older_turns, verbatim_turns) \<Rightarrow>
               (case initial_measurement model older_turns verbatim_turns discipline st of
                  (Inl e, st1) \<Rightarrow> (Inl e, st1)
                | (Inr (summary1, summary_tokens, verbatim_tokens), st1) \<Rightarrow>
                    enforce_budget history_budget model older_turns verbatim_turns discipline
                      summary1 summary_tokens verbatim_tokens st1)))"

text \<open>Step 5 (lines 264-268): format and return the context string and the summary.\<close>

definition manage_history_and_get_context ::
  "config \<Rightarrow> 'w model \<Rightarrow> string \<Rightarrow> nat \<Rightarrow> string \<Rightarrow> 'w state
     \<Rightarrow> (py_exception + (string \<times> string)) \<times> 'w state" where
  "manage_history_and_get_context cfg model current_summary chat_history discipline st =
     (case budgeted_history cfg model current_summary chat_history discipline st of
        (Inl e, st') \<Rightarrow> (Inl e, st')
      | (Inr (final_summary, final_verbatim), st') \<Rightarrow>
          (Inr (format_history_for_prompt final_summary final_verbatim, final_summary), st'))"

subsection \<open>\<^verbatim>\<open>configure_gemini\<close> (lines 65-79)\<close>

text \<open>
  \<open>genai\<close> stands for \<^verbatim>\<open>genai.configure(api_key=...)\<close> followed by
  \<^verbatim>\<open>genai.GenerativeModel(MODEL_NAME)\<close>: it raises or yields the model handle.
\<close>

type_synonym 'w genai = "'w \<Rightarrow> string \<Rightarrow> string \<Rightarrow> (api_failure + 'w model) \<times> 'w"

fun configure_failure_text :: "api_failure \<Rightarrow> string" where
  "configure_failure_text (PermissionDenied m) =
     ''Error: Permission denied configuring Gemini API. Check API key/permissions. Details: '' @ m"
| "configure_failure_text (GoogleAPIError m) = ''Error configuring Gemini API or loading model: '' @ m"
| "configure_failure_text (OtherException m) =
     ''An unexpected error occurred during Gemini configuration: '' @ m"

definition configure_gemini ::
  "config \<Rightarrow> 'w genai \<Rightarrow> 'w state \<Rightarrow> (py_exception + 'w model) \<times> 'w state" where
  "configure_gemini cfg genai st =
     (case API_KEY cfg of
        None \<Rightarrow> (Inl (SystemExit 1), emit (Stderr ''Error: GOOGLE_API_KEY not found.'') st)
      | Some key \<Rightarrow>
          if key = [] then (Inl (SystemExit 1), emit (Stderr ''Error: GOOGLE_API_KEY not found.'') st)
          else
            (case genai (remote st) key (MODEL_NAME cfg) of
               (Inl e, w) \<Rightarrow>
                 (Inl (SystemExit 1), emit (Stderr (configure_failure_text e)) (st\<lparr>remote := w\<rparr>))
             | (Inr m, w) \<Rightarrow>
                 (case count_tokens_rpc m w ''test'' of
                    (TokRaises e, w') \<Rightarrow>
                      (Inl (SystemExit 1),
                       emit (Stderr (configure_failure_text e))
                         (emit (CountRequest ''test'')
                            (emit (Stdout (''Successfully configured Gemini model: '' @ MODEL_NAME cfg))
                               (st\<lparr>remote := w', model_instance := Some m\<rparr>))))
                  | (TotalTokens n, w') \<Rightarrow>
                      (Inr m,
                       emit (Stdout ''Token counting capability verified.'')
                         (emit (CountRequest ''test'')
                            (emit (Stdout (''Successfully configured Gemini model: '' @ MODEL_NAME cfg))
                               (st\<lparr>remote := w', model_instance := Some m\<rparr>)))))))"

subsection \<open>Contracts of the collaborators and observations on the trace\<close>

text \<open>A token oracle that returns consistent counts: the count is a function of the text.\<close>

definition consistent_counts :: "'w model \<Rightarrow> (string \<Rightarrow> int) \<Rightarrow> bool" where
  "consistent_counts m f \<longleftrightarrow> (\<forall>w text. fst (count_tokens_rpc m w text) = TotalTokens (f text))"

text \<open>The contract of section 6 of the specification: a count is never negative.\<close>

definition counts_nonneg :: "'w model \<Rightarrow> bool" where
  "counts_nonneg m \<longleftrightarrow> (\<forall>w text n. fst (count_tokens_rpc m w text) = TotalTokens n \<longrightarrow> 0 \<le> n)"

definition counting_unavailable :: "'w model \<Rightarrow> bool" where
  "counting_unavailable m \<longleftrightarrow> (\<forall>w text. \<exists>e. fst (count_tokens_rpc m w text) = TokRaises e)"

text \<open>The summarizer raises or returns no usable output, whatever it is asked.\<close>

definition no_usable_summary :: "'w model \<Rightarrow> bool" where
  "no_usable_summary m \<longleftrightarrow> (\<forall>w prompt t. fst (generate_content m w prompt) \<noteq> GenText t)"

definition failure_placeholders :: "string set" where
  "failure_placeholders =
     {''[Summarization failed]'', ''[Summarization failed due to API error]'',
      ''[Summarization failed due to unexpected error]''}"

fun is_generate_request :: "event \<Rightarrow> bool" where
  "is_generate_request (GenerateRequest p) = True"
| "is_generate_request e = False"

text \<open>The count that \<open>count_tokens\<close> reports under a consistent oracle \<open>f\<close>.\<close>

definition reported_count :: "(string \<Rightarrow> int) \<Rightarrow> string \<Rightarrow> int" where
  "reported_count f text = (if text = [] then 0 else f text)"

subsection \<open>Concrete collaborators and sessions for the examples\<close>

text \<open>
  A service that counts \<open>k\<close> tokens per character and answers every summarization request
  with the same outcome; a service on which every call fails; a session whose turn log is
  the list object at address 0.
\<close>

definition per_char_count :: "int \<Rightarrow> string \<Rightarrow> int" where
  "per_char_count k text = k * int (length text)"

definition per_char_model :: "int \<Rightarrow> gen_outcome \<Rightarrow> unit model" where
  "per_char_model k reply =
     \<lparr> generate_content = (\<lambda>w prompt. (reply, w)),
       count_tokens_rpc = (\<lambda>w text. (TotalTokens (per_char_count k text), w)) \<rparr>"

definition broken_model :: "unit model" where
  "broken_model =
     \<lparr> generate_content = (\<lambda>w prompt. (GenRaises (GoogleAPIError ''503 unavailable''), w)),
       count_tokens_rpc = (\<lambda>w text. (TokRaises (OtherException ''timed out''), w)) \<rparr>"

definition session :: "unit model \<Rightarrow> turn list \<Rightarrow> unit state" where
  "session m log =
     \<lparr> remote = (), model_instance = Some m,
       turn_lists = (\<lambda>r. if r = 0 then log else []), trace = [] \<rparr>"

definition user_says :: "string \<Rightarrow> turn" where
  "user_says c = \<lparr> role = User, content = c \<rparr>"

definition tutor_says :: "string \<Rightarrow> turn" where
  "tutor_says c = \<lparr> role = Assistant, content = c \<rparr>"

definition eleven_turns :: "turn list" where
  "eleven_turns =
     [user_says ''a'', tutor_says ''a'', user_says ''a'', tutor_says ''a'', user_says ''a'',
      tutor_says ''a'', user_says ''a'', tutor_says ''a'', user_says ''a'', tutor_says ''a'',
      user_says ''I think it is about cost.'']"

definition shipped :: config where
  "shipped = source_config (Some ''secret-key'')"

text \<open>
  The file with only MAX\_CONTEXT\_WINDOW edited to 500; a library that always hands out the
  given model; the state of a process that has just started.
\<close>

definition small_window :: config where
  "small_window = shipped\<lparr>MAX_CONTEXT_WINDOW := 500\<rparr>"

definition always_connects :: "unit model \<Rightarrow> unit genai" where
  "always_connects m = (\<lambda>w key name. (Inr m, w))"

definition fresh_process :: "unit state" where
  "fresh_process = \<lparr> remote = (), model_instance = None, turn_lists = (\<lambda>r. []), trace = [] \<rparr>"

text \<open>
  What every function of the manager leaves alone: the configured model and the stored turn
  lists stay as they are, and the trace only grows.
\<close>

definition extends :: "'w state \<Rightarrow> 'w state \<Rightarrow> bool" where
  "extends st st' \<longleftrightarrow>
     model_instance st' = model_instance st \<and> turn_lists st' = turn_lists st \<and>
     (\<exists>es. trace st' = trace st @ es)"


section \<open>Auxiliary facts\<close>

text \<open>The two recursions on numbers are unfolded on demand only.\<close>

declare str_of_nat.simps [simp del] bit_length.simps [simp del]

subsection \<open>Text helpers\<close>

lemma split_lines_no_newline: "CHR 0x0A \<notin> set s \<Longrightarrow> split_lines s = [s]"
  by (induction s) auto

lemma indent_lines_id: "CHR 0x0A \<notin> set s \<Longrightarrow> indent_lines s = s"
  by (simp add: indent_lines_def split_lines_no_newline)

lemma dropWhile_id: "s = [] \<or> \<not> P (hd s) \<Longrightarrow> dropWhile P s = s"
  by (cases s) auto

lemma strip_id: "s = [] \<or> (\<not> isspace (hd s) \<and> \<not> isspace (last s)) \<Longrightarrow> strip s = s"
  by (cases "s = []") (simp_all add: strip_def dropWhile_id hd_rev)

subsection \<open>The float model on small integers\<close>

lemma bit_length_le: "n < 2 ^ k \<Longrightarrow> bit_length n \<le> k"
proof (induction n arbitrary: k rule: bit_length.induct)
  case (1 n)
  show ?case
  proof (cases "n = 0")
    case True
    then show ?thesis by (simp add: bit_length.simps)
  next
    case False
    with "1.prems" obtain j where k: "k = Suc j" by (cases k) auto
    with "1.prems" have "n div 2 < 2 ^ j" by auto
    with "1.IH" False have "bit_length (n div 2) \<le> j" by blast
    with False k show ?thesis by (subst bit_length.simps) simp
  qed
qed

lemma round53_small: "n < 2 ^ 53 \<Longrightarrow> round53 n = n"
  by (simp add: round53_def bit_length_le)

lemma py_float_of_int_small: "\<bar>t\<bar> < 2 ^ 53 \<Longrightarrow> py_float_of_int t = Some t"
proof -
  assume a: "\<bar>t\<bar> < 2 ^ 53"
  then have "nat \<bar>t\<bar> < 2 ^ 53" by (simp add: nat_less_iff)
  then have r: "round53 (nat \<bar>t\<bar>) = nat \<bar>t\<bar>" by (rule round53_small)
  have "(2::nat) ^ 53 \<le> 2 ^ 1024" by (rule power_increasing) simp_all
  with \<open>nat \<bar>t\<bar> < 2 ^ 53\<close> have "\<not> nat \<bar>t\<bar> \<ge> 2 ^ 1024" by linarith
  then show ?thesis by (simp add: py_float_of_int_def r Let_def mult_sgn_abs)
qed

lemma py_int_times_float_small:
  "\<bar>t\<bar> < 2 ^ 53 \<Longrightarrow> \<exists>w. py_int_times_float t c = Some w"
  by (simp add: py_int_times_float_def py_float_of_int_small)

subsection \<open>What the functions preserve\<close>

lemma extends_refl: "extends st st"
  by (simp add: extends_def)

lemma extends_trans: "extends a b \<Longrightarrow> extends b c \<Longrightarrow> extends a c"
  by (auto simp: extends_def)

lemma extends_emit: "extends st (emit e st)"
  by (simp add: extends_def emit_def)

lemma extends_remote: "extends st st' \<Longrightarrow> extends st (st'\<lparr>remote := w\<rparr>)"
  by (simp add: extends_def)

lemma extends_emit': "extends st st' \<Longrightarrow> extends st (emit e st')"
  by (auto simp: extends_def emit_def)

lemma count_tokens_extends: "extends st (snd (count_tokens text st))"
  by (auto simp: count_tokens_def extends_emit extends_refl extends_emit' extends_remote
           split: option.splits prod.splits tok_outcome.splits)

lemma request_summary_extends: "extends st (snd (request_summary model prompt st))"
proof -
  let ?st1 = "\<lambda>w. (emit (GenerateRequest prompt) st)\<lparr>remote := w\<rparr>"
  have a: "extends st (?st1 w)" for w
    by (simp add: extends_remote extends_emit)
  have b: "extends st (snd (count_tokens t (?st1 w)))" for t w
    by (rule extends_trans [OF a count_tokens_extends])
  show ?thesis
    by (auto simp: request_summary_def a b extends_emit' split: prod.splits gen_outcome.splits)
       (metis b extends_emit' snd_conv)
qed

lemma summarize_history_extends: "extends st (snd (summarize_history model turns discipline target st))"
proof -
  have "extends st (snd (request_summary model p (emit e st)))" for p e
    by (rule extends_trans [OF extends_emit request_summary_extends])
  moreover have "extends st (snd (request_summary model p (emit e2 (emit e st))))" for p e e2
    by (rule extends_trans [OF extends_emit' [OF extends_emit] request_summary_extends])
  ultimately show ?thesis
    by (auto simp: summarize_history_def Let_def extends_refl extends_emit
             split: option.splits prod.splits)
       (metis snd_conv)+
qed

lemma initial_measurement_extends:
  "extends st (snd (initial_measurement model older verbatim discipline st))"
proof (cases "older = []")
  case True
  have "extends st (snd (count_tokens b (snd (count_tokens a st))))" for a b
    by (rule extends_trans [OF count_tokens_extends count_tokens_extends])
  with True show ?thesis
    by (simp add: initial_measurement_def split: prod.splits) (metis snd_conv)
next
  case False
  have "extends st (snd (count_tokens b (snd (count_tokens a
          (snd (summarize_history model older discipline None st))))))" for a b
    by (rule extends_trans [OF summarize_history_extends
          extends_trans [OF count_tokens_extends count_tokens_extends]])
  moreover have "extends st (snd (summarize_history model older discipline None st))"
    by (rule summarize_history_extends)
  ultimately show ?thesis using False
    by (simp add: initial_measurement_def split: prod.splits sum.splits) (metis snd_conv)
qed

lemma enforce_budget_extends:
  "extends st (snd (enforce_budget b model older verbatim discipline s stok vtok st))"
proof -
  have a: "extends st (snd (summarize_history model older discipline t (emit e2 (emit e1 st))))"
    for t e1 e2
    by (rule extends_trans [OF extends_emit' [OF extends_emit] summarize_history_extends])
  have c: "extends st (snd (count_tokens x (snd (summarize_history model older discipline t
             (emit e2 (emit e1 st))))))" for x t e1 e2
    by (rule extends_trans [OF a count_tokens_extends])
  show ?thesis
    apply (simp add: enforce_budget_def Let_def extends_refl extends_emit extends_emit'
                split: prod.splits sum.splits)
    apply (intro conjI impI allI)
      apply (metis a snd_conv)
     apply (metis c extends_emit' snd_conv)
    apply (metis c snd_conv)
    done
qed

lemma budgeted_history_extends:
  "extends st (snd (budgeted_history cfg model prev chat discipline st))"
proof -
  have "extends st (snd (enforce_budget b model older verbatim discipline s stok vtok
          (snd (initial_measurement model older verbatim discipline st))))"
    for b older verbatim s stok vtok
    by (rule extends_trans [OF initial_measurement_extends enforce_budget_extends])
  moreover have "extends st (snd (initial_measurement model older verbatim discipline st))"
    for older verbatim
    by (rule initial_measurement_extends)
  ultimately show ?thesis
    by (simp add: budgeted_history_def extends_refl split: option.splits prod.splits sum.splits)
       (metis snd_conv)
qed

lemma manage_extends:
  "extends st (snd (manage_history_and_get_context cfg model prev chat discipline st))"
  using budgeted_history_extends [of st cfg model prev chat discipline]
  by (auto simp: manage_history_and_get_context_def split: prod.splits sum.splits)

lemma manage_ignores_previous:
  "manage_history_and_get_context cfg model s1 chat discipline st =
   manage_history_and_get_context cfg model s2 chat discipline st"
  by (simp add: manage_history_and_get_context_def budgeted_history_def)

subsection \<open>Token counting\<close>

lemma count_tokens_empty: "fst (count_tokens [] st) = 0"
  by (simp add: count_tokens_def split: option.splits)

lemma count_tokens_empty_state: "model_instance st = Some m \<Longrightarrow> count_tokens [] st = (0, st)"
  by (simp add: count_tokens_def)

lemma count_tokens_raises:
  "model_instance st = Some m \<Longrightarrow> text \<noteq> [] \<Longrightarrow>
   count_tokens_rpc m (remote st) text = (TokRaises e, w) \<Longrightarrow>
   fst (count_tokens text st) = 0 \<and>
   (\<exists>msg. trace (snd (count_tokens text st)) = trace st @ [CountRequest text, Stderr msg])"
  by (simp add: count_tokens_def emit_def)

lemma count_tokens_nonneg:
  "(\<forall>m. model_instance st = Some m \<longrightarrow> counts_nonneg m) \<Longrightarrow> 0 \<le> fst (count_tokens text st)"
  by (auto simp: count_tokens_def counts_nonneg_def
           split: option.splits prod.splits tok_outcome.splits)
     (metis fst_conv)

lemma count_tokens_unavailable:
  "counting_unavailable m \<Longrightarrow> model_instance st = Some m \<Longrightarrow> fst (count_tokens text st) = 0"
  by (auto simp: count_tokens_def counting_unavailable_def
           split: option.splits prod.splits tok_outcome.splits)
     (metis fst_conv tok_outcome.distinct(1))

lemma count_tokens_consistent:
  "consistent_counts m f \<Longrightarrow> model_instance st = Some m \<Longrightarrow>
   fst (count_tokens text st) = reported_count f text"
  by (auto simp: count_tokens_def consistent_counts_def reported_count_def
           split: option.splits prod.splits tok_outcome.splits)
     (metis fst_conv tok_outcome.inject tok_outcome.distinct(1))+

subsection \<open>The phases of the manager, case by case\<close>

lemma summarize_history_unhinted:
  "\<not> wants_length_guidance target \<Longrightarrow>
   \<exists>s. fst (summarize_history model turns discipline target st) = Inr s"
  by (simp add: summarize_history_def Let_def split: prod.splits)

lemma wants_None [simp]: "\<not> wants_length_guidance None"
  by (simp add: wants_length_guidance_def)

lemma enforce_budget_within:
  "stok + vtok \<le> b \<Longrightarrow>
   enforce_budget b model older verbatim discipline s stok vtok st = (Inr (s, verbatim), st)"
  by (simp add: enforce_budget_def)

lemma enforce_budget_hard:
  "stok + vtok > b \<Longrightarrow> b - vtok < 0 \<Longrightarrow>
   enforce_budget b model older verbatim discipline s stok vtok st =
     (Inr (discarded_marker, []),
      emit (Stderr (hard_overflow_error vtok b)) (emit (Stdout (overflow_warning (stok + vtok) b)) st))"
  by (simp add: enforce_budget_def Let_def)

lemma enforce_budget_resummarize:
  "stok + vtok > b \<Longrightarrow> 0 \<le> b - vtok \<Longrightarrow> older \<noteq> [] \<Longrightarrow>
   enforce_budget b model older verbatim discipline s stok vtok st =
     (case summarize_history model older discipline (Some (b - vtok))
             (emit (Stdout (targeting_note (b - vtok)))
                (emit (Stdout (overflow_warning (stok + vtok) b)) st)) of
        (Inl e, st2) \<Rightarrow> (Inl e, st2)
      | (Inr new_summary, st2) \<Rightarrow>
          (case count_tokens new_summary st2 of
             (new_tokens, st3) \<Rightarrow>
               (Inr (new_summary, verbatim),
                if new_tokens + vtok > b
                then emit (Stdout (still_over_warning (new_tokens + vtok) b)) st3
                else st3)))"
  by (simp add: enforce_budget_def Let_def)

lemma enforce_budget_no_older:
  "stok + vtok > b \<Longrightarrow> 0 \<le> b - vtok \<Longrightarrow>
   enforce_budget b model [] verbatim discipline s stok vtok st =
     (Inr ([], verbatim), emit (Stdout (overflow_warning (stok + vtok) b)) st)"
  by (simp add: enforce_budget_def Let_def)

lemma budgeted_history_unfold:
  "history_token_budget cfg = Some b \<Longrightarrow>
   split_history cfg (turn_lists st chat) = (older, verbatim) \<Longrightarrow>
   initial_measurement model older verbatim discipline st = (Inr (s1, stok, vtok), st1) \<Longrightarrow>
   budgeted_history cfg model prev chat discipline st =
     enforce_budget b model older verbatim discipline s1 stok vtok st1"
  by (simp add: budgeted_history_def)

lemma manage_unfold:
  "budgeted_history cfg model prev chat discipline st = (Inr (s, v), st') \<Longrightarrow>
   manage_history_and_get_context cfg model prev chat discipline st =
     (Inr (format_history_for_prompt s v, s), st')"
  by (simp add: manage_history_and_get_context_def)

lemma initial_measurement_cases:
  "\<exists>s1 st1. initial_measurement model older verbatim discipline st =
     (Inr (s1, fst (count_tokens s1 st1),
           fst (count_tokens (verbatim_turns_text verbatim) (snd (count_tokens s1 st1)))),
      snd (count_tokens (verbatim_turns_text verbatim) (snd (count_tokens s1 st1)))) \<and>
     extends st st1 \<and>
     (if older = [] then s1 = [] \<and> st1 = st
      else summarize_history model older discipline None st = (Inr s1, st1))"
proof (cases "older = []")
  case True
  then show ?thesis
    by (simp add: initial_measurement_def extends_refl split: prod.splits)
next
  case False
  obtain s1 where f: "fst (summarize_history model older discipline None st) = Inr s1"
    using summarize_history_unhinted [of None model older discipline st] by auto
  show ?thesis
    using False f summarize_history_extends [of st model older discipline None]
    by (intro exI [of _ s1] exI [of _ "snd (summarize_history model older discipline None st)"])
       (simp add: initial_measurement_def case_prod_beta prod_eq_iff)
qed

subsection \<open>Evaluation of the examples\<close>

lemmas run_defs = manage_history_and_get_context_def budgeted_history_def initial_measurement_def
  enforce_budget_def split_history_def verbatim_turns_text_def count_tokens_def summarize_history_def
  request_summary_def emit_def session_def per_char_model_def per_char_count_def
  user_says_def tutor_says_def
  format_history_for_prompt_def history_header_def indent_lines_def render_turn_def NL_def
  discarded_marker_def strip_def isspace_def ascii_upper_def ascii_lower_def Let_def
  wants_length_guidance_def eleven_turns_def

lemma shipped_budget: "history_token_budget shipped = Some 25600"
  by (simp add: shipped_def history_token_budget_def source_config_def py_int_times_float_def
        py_float_of_int_def float_0_80_def round53_def Let_def bit_length.simps)

lemma shipped_last: "LAST_VERBATIM_TURNS shipped = 10"
  by (simp add: shipped_def source_config_def)

subsection \<open>Requests recorded in the trace\<close>

lemma request_summary_trace:
  "\<exists>es. trace (snd (request_summary model prompt st)) = trace st @ GenerateRequest prompt # es"
proof -
  let ?st1 = "\<lambda>w. (emit (GenerateRequest prompt) st)\<lparr>remote := w\<rparr>"
  have t1: "trace (?st1 w) = trace st @ [GenerateRequest prompt]" for w
    by (simp add: emit_def)
  have "\<exists>es. trace (snd (count_tokens t (?st1 w))) = trace st @ GenerateRequest prompt # es" for t w
    using count_tokens_extends [of "?st1 w" t] by (auto simp: extends_def t1)
  then have "\<exists>es. trace (emit e (snd (count_tokens t (?st1 w)))) =
      trace st @ GenerateRequest prompt # es" for t w e
    by (metis (no_types, lifting) append_Cons append_assoc emit_def select_convs(4) surjective
        update_convs(4))
  then show ?thesis
    by (auto simp: request_summary_def emit_def split: prod.splits gen_outcome.splits)
       (metis snd_conv emit_def)
qed

lemma summarize_history_request:
  assumes "turns \<noteq> []"
    and "summarize_history model turns discipline target st = (Inr s, st')"
  shows "\<exists>es. trace st' = trace st @ es \<and>
          GenerateRequest (summary_prompt discipline (join NL (map summary_line turns))
             (if wants_length_guidance target
              then length_guidance_text (the (py_int_times_float (the target) float_0_7)) (the target)
              else [])) \<in> set es"
proof (cases "wants_length_guidance target")
  case False
  let ?p = "summary_prompt discipline (join NL (map summary_line turns)) []"
  let ?st1 = "emit (Stdout (NL @ ''Summarizing '' @ str_of_nat (length turns)
                     @ '' older conversation turn(s)...'')) st"
  from assms False have st': "st' = snd (request_summary model ?p ?st1)"
    by (simp add: summarize_history_def Let_def split: prod.splits)
  obtain es where "trace st' = trace ?st1 @ GenerateRequest ?p # es"
    using request_summary_trace [of model ?p ?st1] st' by auto
  then have "trace st' = trace st @ (Stdout (NL @ ''Summarizing '' @ str_of_nat (length turns)
                     @ '' older conversation turn(s)...'') # GenerateRequest ?p # es)"
    by (simp add: emit_def)
  with False show ?thesis by (intro exI conjI) (assumption, simp)
next
  case True
  from assms True obtain w where w: "py_int_times_float (the target) float_0_7 = Some w"
    by (auto simp: summarize_history_def Let_def split: option.splits)
  let ?p = "summary_prompt discipline (join NL (map summary_line turns))
              (length_guidance_text w (the target))"
  let ?e1 = "Stdout (NL @ ''Summarizing '' @ str_of_nat (length turns)
                     @ '' older conversation turn(s)...'')"
  let ?e2 = "Stdout (''(Attempting to limit summary to ~'' @ str_of_int (the target) @ '' tokens)'')"
  let ?st2 = "emit ?e2 (emit ?e1 st)"
  from assms True w have st': "st' = snd (request_summary model ?p ?st2)"
    by (simp add: summarize_history_def Let_def split: prod.splits)
  obtain es where "trace st' = trace ?st2 @ GenerateRequest ?p # es"
    using request_summary_trace [of model ?p ?st2] st' by auto
  then have "trace st' = trace st @ (?e1 # ?e2 # GenerateRequest ?p # es)"
    by (simp add: emit_def)
  with True w show ?thesis by (intro exI conjI) (assumption, simp)
qed

subsection \<open>The partition and the final selection\<close>

lemma split_history_facts:
  assumes "0 \<le> LAST_VERBATIM_TURNS cfg" and "split_history cfg log = (older, verbatim)"
  shows "older @ verbatim = log"
    and "length verbatim = min (nat (LAST_VERBATIM_TURNS cfg)) (length log)"
    and "verbatim = drop (length log - nat (LAST_VERBATIM_TURNS cfg)) log"
    and "older = take (length log - nat (LAST_VERBATIM_TURNS cfg)) log"
proof -
  have c: "nat (max 0 (int (length log) - LAST_VERBATIM_TURNS cfg)) =
           length log - nat (LAST_VERBATIM_TURNS cfg)"
    using assms(1) by (simp add: max_def nat_diff_distrib')
  from assms(2) have o: "older = take (length log - nat (LAST_VERBATIM_TURNS cfg)) log"
    and v: "verbatim = drop (length log - nat (LAST_VERBATIM_TURNS cfg)) log"
    by (simp_all add: split_history_def Let_def c)
  show "older @ verbatim = log" by (simp add: o v)
  show "length verbatim = min (nat (LAST_VERBATIM_TURNS cfg)) (length log)" by (simp add: v)
  show "verbatim = drop (length log - nat (LAST_VERBATIM_TURNS cfg)) log" by (rule v)
  show "older = take (length log - nat (LAST_VERBATIM_TURNS cfg)) log" by (rule o)
qed

lemma enforce_budget_verbatim:
  "enforce_budget b model older verbatim discipline s stok vtok st = (Inr (s', v'), st') \<Longrightarrow>
   v' = verbatim \<or> v' = []"
  by (auto simp: enforce_budget_def Let_def split: if_splits prod.splits sum.splits)

lemma initial_measurement_no_older:
  "initial_measurement model [] verbatim discipline st = (Inr (s1, stok, vtok), st1) \<Longrightarrow>
   s1 = [] \<and> stok = 0"
  by (auto simp: initial_measurement_def count_tokens_empty split: prod.splits)
     (metis count_tokens_empty fst_conv)

lemma initial_measurement_older:
  "older \<noteq> [] \<Longrightarrow>
   initial_measurement model older verbatim discipline st = (Inr (s1, stok, vtok), st1) \<Longrightarrow>
   fst (summarize_history model older discipline None st) = Inr s1"
  by (auto simp: initial_measurement_def split: prod.splits sum.splits)

lemma extends_model: "extends a b \<Longrightarrow> model_instance a = Some m \<Longrightarrow> model_instance b = Some m"
  by (simp add: extends_def)

lemma last_trace_emit: "last (trace (emit e st)) = e"
  by (simp add: emit_def)

lemma enforce_budget_consistent:
  assumes cc: "consistent_counts m f" and mi: "model_instance st = Some m"
    and st: "stok = reported_count f s" and vt: "vtok = reported_count f (verbatim_turns_text verbatim)"
    and res: "enforce_budget b model older verbatim discipline s stok vtok st =
                (Inr (summary, turns), st')"
  shows "reported_count f summary + reported_count f (verbatim_turns_text turns) \<le> b
       \<or> (summary = discarded_marker \<and> turns = [] \<and>
            (\<exists>n. last (trace st') = Stderr (hard_overflow_error n b)))
       \<or> last (trace st') = Stdout (still_over_warning
            (reported_count f summary + reported_count f (verbatim_turns_text turns)) b)"
proof -
  consider (within) "stok + vtok \<le> b"
    | (hard) "stok + vtok > b" "b - vtok < 0"
    | (empty) "stok + vtok > b" "0 \<le> b - vtok" "older = []"
    | (again) "stok + vtok > b" "0 \<le> b - vtok" "older \<noteq> []"
    by linarith
  then show ?thesis
  proof cases
    case within
    with res st vt show ?thesis by (simp add: enforce_budget_within)
  next
    case hard
    with res show ?thesis by (auto simp: enforce_budget_hard last_trace_emit)
  next
    case empty
    with res have "summary = []" "turns = verbatim" by (simp_all add: enforce_budget_no_older)
    with empty vt show ?thesis by (simp add: reported_count_def)
  next
    case again
    let ?st1 = "emit (Stdout (targeting_note (b - vtok)))
                  (emit (Stdout (overflow_warning (stok + vtok) b)) st)"
    let ?sh = "summarize_history model older discipline (Some (b - vtok)) ?st1"
    from res have sh: "fst ?sh = Inr summary" and tv: "turns = verbatim"
      by (auto simp: enforce_budget_resummarize [OF again] split: prod.splits sum.splits)
    let ?st2 = "snd ?sh"
    have "extends st ?st2"
      by (rule extends_trans [OF extends_emit' [OF extends_emit] summarize_history_extends])
    with mi have "model_instance ?st2 = Some m" by (rule extends_model [rotated])
    then have nt: "fst (count_tokens summary ?st2) = reported_count f summary"
      by (rule count_tokens_consistent [OF cc])
    from res sh have st': "st' = (if reported_count f summary + vtok > b
         then emit (Stdout (still_over_warning (reported_count f summary + vtok) b))
                (snd (count_tokens summary ?st2))
         else snd (count_tokens summary ?st2))"
      by (auto simp: enforce_budget_resummarize [OF again] nt [symmetric]
               split: prod.splits sum.splits)
    show ?thesis
      by (cases "reported_count f summary + vtok > b") (simp_all add: st' tv vt last_trace_emit)
  qed
qed

lemmas float_defs = py_int_times_float_def py_float_of_int_def float_0_7_def round53_def
  bit_length.simps str_of_nat.simps str_of_int_def

lemma enforce_budget_keeps_window:
  "\<not> (stok + vtok > b \<and> b - vtok < 0) \<Longrightarrow>
   enforce_budget b model older verbatim discipline s stok vtok st = (Inr (s', v'), st') \<Longrightarrow>
   v' = verbatim"
  by (auto simp: enforce_budget_def Let_def split: if_splits prod.splits sum.splits)

lemma format_with_turns:
  "verbatim \<noteq> [] \<Longrightarrow>
   format_history_for_prompt summary verbatim =
     join NL (history_header summary @ map render_turn verbatim)"
  by (simp add: format_history_for_prompt_def Let_def)

lemma render_turn_clean:
  "CHR 0x0A \<notin> set (content t) \<Longrightarrow>
   content t = [] \<or> (\<not> isspace (hd (content t)) \<and> \<not> isspace (last (content t))) \<Longrightarrow>
   render_turn t = ''- '' @ capitalize (role_str (role t)) @ '':'' @ NL @ ''  '' @ content t"
  by (simp add: render_turn_def strip_id indent_lines_id)

lemma render_turn_indents_continuation_lines:
  "render_turn (tutor_says (''  Supply rises.'' @ NL @ ''Price falls. '')) =
     ''- Assistant:'' @ NL @ ''  Supply rises.'' @ NL @ ''  Price falls.''"
  by (simp add: render_turn_def tutor_says_def NL_def strip_def isspace_def indent_lines_def
        ascii_upper_def ascii_lower_def)

subsection \<open>A failing summarizer\<close>

lemma request_summary_placeholder:
  "no_usable_summary model \<Longrightarrow> fst (request_summary model prompt st) \<in> failure_placeholders"
  by (auto simp: request_summary_def no_usable_summary_def failure_placeholders_def
           split: prod.splits gen_outcome.splits)
     (metis fst_conv)

lemma summarize_history_placeholder:
  "no_usable_summary model \<Longrightarrow> turns \<noteq> [] \<Longrightarrow>
   summarize_history model turns discipline target st = (Inr s, st') \<Longrightarrow>
   s \<in> failure_placeholders"
  using request_summary_placeholder [of model]
  by (auto simp: summarize_history_def Let_def split: if_splits option.splits prod.splits)
     (metis fst_conv)+

lemma placeholder_single_line: "s \<in> failure_placeholders \<Longrightarrow> s \<noteq> [] \<and> indent_lines s = s"
  by (auto simp: failure_placeholders_def indent_lines_def)

lemma format_with_summary:
  "s \<noteq> [] \<Longrightarrow> indent_lines s = s \<Longrightarrow>
   format_history_for_prompt s v =
     ''Summary of Older Conversation Turns:'' @ NL @ ''  '' @ s @ NL @ NL
     @ ''Recent Verbatim Conversation Turns:'' @ NL
     @ (if v = [] then ''  (No recent verbatim turns available)'' else join NL (map render_turn v))"
  by (cases v) (simp_all add: format_history_for_prompt_def history_header_def Let_def)

subsection \<open>The manager returns normally\<close>

lemma summarize_history_returns:
  assumes "wants_length_guidance target \<longrightarrow> \<bar>the target\<bar> < 2 ^ 53"
  shows "\<exists>s. fst (summarize_history model turns discipline target st) = Inr s"
proof (cases "wants_length_guidance target")
  case False
  then show ?thesis by (rule summarize_history_unhinted)
next
  case True
  with assms obtain w where "py_int_times_float (the target) float_0_7 = Some w"
    using py_int_times_float_small [of "the target" float_0_7] by auto
  with True show ?thesis
    by (simp add: summarize_history_def Let_def split: prod.splits)
qed

lemma enforce_budget_returns:
  assumes "0 \<le> vtok" and "b < 2 ^ 53"
  shows "\<exists>s v. fst (enforce_budget b model older verbatim discipline s1 stok vtok st) = Inr (s, v)"
proof -
  have "\<exists>s. fst (summarize_history model older discipline (Some (b - vtok)) st0) = Inr s"
    if "0 \<le> b - vtok" for st0
  proof (rule summarize_history_returns)
    from that assms show "wants_length_guidance (Some (b - vtok)) \<longrightarrow> \<bar>the (Some (b - vtok))\<bar> < 2 ^ 53"
      by simp
  qed
  then show ?thesis
    by (auto simp: enforce_budget_def Let_def split: prod.splits sum.splits) (metis fst_conv sum.distinct(1))+
qed

lemma manage_returns:
  assumes "history_token_budget cfg = Some b" and "b < 2 ^ 53"
    and "\<forall>m. model_instance st = Some m \<longrightarrow> counts_nonneg m"
  shows "\<exists>block s. fst (manage_history_and_get_context cfg model prev chat discipline st) = Inr (block, s)"
proof -
  obtain older verbatim where sp: "split_history cfg (turn_lists st chat) = (older, verbatim)"
    by (cases "split_history cfg (turn_lists st chat)")
  obtain s1 st1 where im: "initial_measurement model older verbatim discipline st =
       (Inr (s1, fst (count_tokens s1 st1),
             fst (count_tokens (verbatim_turns_text verbatim) (snd (count_tokens s1 st1)))),
        snd (count_tokens (verbatim_turns_text verbatim) (snd (count_tokens s1 st1))))"
    and ext: "extends st st1"
    using initial_measurement_cases [of model older verbatim discipline st] by blast
  let ?st2 = "snd (count_tokens s1 st1)"
  have "extends st ?st2" by (rule extends_trans [OF ext count_tokens_extends])
  with assms(3) have "\<forall>m. model_instance ?st2 = Some m \<longrightarrow> counts_nonneg m"
    by (simp add: extends_def)
  then have nn: "0 \<le> fst (count_tokens (verbatim_turns_text verbatim) ?st2)"
    by (rule count_tokens_nonneg)
  let ?bh = "budgeted_history cfg model prev chat discipline st"
  from enforce_budget_returns [OF nn assms(2)] budgeted_history_unfold [OF assms(1) sp im]
  obtain s v where "fst ?bh = Inr (s, v)" by metis
  then have "?bh = (Inr (s, v), snd ?bh)" by (metis prod.collapse)
  from manage_unfold [OF this] show ?thesis by simp
qed

lemma enforce_budget_placeholder:
  assumes nu: "no_usable_summary model" and ne: "older \<noteq> []" and s1: "s1 \<in> failure_placeholders"
    and res: "enforce_budget b model older verbatim discipline s1 stok vtok st = (Inr (s, v), st')"
  shows "(s \<in> failure_placeholders \<and> v = verbatim) \<or> (s = discarded_marker \<and> v = [])"
proof -
  consider (within) "stok + vtok \<le> b"
    | (hard) "stok + vtok > b" "b - vtok < 0"
    | (again) "stok + vtok > b" "0 \<le> b - vtok"
    by linarith
  then show ?thesis
  proof cases
    case within
    with res s1 show ?thesis by (simp add: enforce_budget_within)
  next
    case hard
    with res show ?thesis by (simp add: enforce_budget_hard)
  next
    case again
    let ?sh = "summarize_history model older discipline (Some (b - vtok))
                 (emit (Stdout (targeting_note (b - vtok)))
                    (emit (Stdout (overflow_warning (stok + vtok) b)) st))"
    from res have sh: "fst ?sh = Inr s" and v: "v = verbatim"
      by (auto simp: enforce_budget_resummarize [OF again ne] split: prod.splits sum.splits)
    then have "?sh = (Inr s, snd ?sh)" by (metis prod.collapse)
    from summarize_history_placeholder [OF nu ne this] v show ?thesis by simp
  qed
qed

lemma source_budget: "history_token_budget (source_config key) = Some 25600"
  by (simp add: history_token_budget_def source_config_def py_int_times_float_def
        py_float_of_int_def float_0_80_def round53_def Let_def bit_length.simps)

subsection \<open>The outcome of step 4, branch by branch\<close>

lemma enforce_budget_outcome:
  assumes e: "older = [] \<longrightarrow> s1 = []"
    and res: "enforce_budget b model older verbatim discipline s1 stok vtok st1 = (Inr (s, v), st')"
  shows "if stok + vtok > b \<and> b - vtok < 0 then v = [] \<and> s = discarded_marker
         else v = verbatim \<and>
              (if older = [] then s = []
               else if stok + vtok > b then
                 fst (summarize_history model older discipline (Some (b - vtok))
                        (emit (Stdout (targeting_note (b - vtok)))
                           (emit (Stdout (overflow_warning (stok + vtok) b)) st1))) = Inr s
               else s = s1)"
proof -
  consider (hard) "stok + vtok > b" "b - vtok < 0"
    | (empty) "\<not> (stok + vtok > b \<and> b - vtok < 0)" "older = []"
    | (again) "stok + vtok > b" "0 \<le> b - vtok" "older \<noteq> []"
    | (fits) "older \<noteq> []" "stok + vtok \<le> b"
    by linarith
  then show ?thesis
  proof cases
    case hard
    with res show ?thesis by (simp add: enforce_budget_hard)
  next
    case empty
    with e have "s1 = []" by simp
    with empty res show ?thesis
      by (auto simp: enforce_budget_def Let_def split: if_splits)
  next
    case again
    with res show ?thesis
      by (auto simp: enforce_budget_resummarize [OF again] split: prod.splits sum.splits)
  next
    case fits
    with res show ?thesis by (simp add: enforce_budget_within)
  qed
qed

lemma manage_result:
  "fst (manage_history_and_get_context cfg model prev chat discipline st) = Inr (block, s) \<Longrightarrow>
   \<exists>v. budgeted_history cfg model prev chat discipline st =
         (Inr (s, v), snd (budgeted_history cfg model prev chat discipline st)) \<and>
       block = format_history_for_prompt s v"
  by (auto simp: manage_history_and_get_context_def split: prod.splits sum.splits)

subsection \<open>One summarizer call and its outcome\<close>

lemma emit_remote [simp]: "remote (emit e st) = remote st"
  by (simp add: emit_def)

lemma request_summary_outcome:
  "generate_content model (remote st) prompt = (out, w) \<Longrightarrow>
   fst (request_summary model prompt st) =
     (case out of
        GenText t \<Rightarrow> strip t
      | GenUnusable \<Rightarrow> ''[Summarization failed]''
      | GenRaises e \<Rightarrow> if is_google_api_error e
                       then ''[Summarization failed due to API error]''
                       else ''[Summarization failed due to unexpected error]'')"
  by (simp add: request_summary_def split: gen_outcome.splits prod.splits)

lemma summarize_history_outcome:
  assumes "turns \<noteq> []"
    and "wants_length_guidance target \<longrightarrow> py_int_times_float (the target) float_0_7 = Some words"
    and "generate_content model (remote st)
           (summary_prompt discipline (join NL (map summary_line turns))
              (if wants_length_guidance target then length_guidance_text words (the target) else []))
         = (out, w)"
  shows "fst (summarize_history model turns discipline target st) =
     Inr (case out of
            GenText t \<Rightarrow> strip t
          | GenUnusable \<Rightarrow> ''[Summarization failed]''
          | GenRaises e \<Rightarrow> if is_google_api_error e
                           then ''[Summarization failed due to API error]''
                           else ''[Summarization failed due to unexpected error]'')"
proof (cases "wants_length_guidance target")
  case True
  with assms show ?thesis
    by (simp add: summarize_history_def Let_def case_prod_beta request_summary_outcome)
next
  case False
  with assms show ?thesis
    by (simp add: summarize_history_def Let_def case_prod_beta request_summary_outcome)
qed

lemma failed_outcome_placeholder:
  "\<forall>t. out \<noteq> GenText t \<Longrightarrow>
   (case out of
      GenText t \<Rightarrow> strip t
    | GenUnusable \<Rightarrow> ''[Summarization failed]''
    | GenRaises e \<Rightarrow> if is_google_api_error e
                     then ''[Summarization failed due to API error]''
                     else ''[Summarization failed due to unexpected error]'')
   \<in> failure_placeholders"
  by (cases out) (simp_all add: failure_placeholders_def)

subsection \<open>The overhead constant is not read\<close>

lemma split_history_ignores_overhead:
  "split_history (cfg\<lparr>PROMPT_OVERHEAD_ESTIMATE := p\<rparr>) log = split_history cfg log"
  by (simp add: split_history_def)

lemma history_token_budget_ignores_overhead:
  "history_token_budget (cfg\<lparr>PROMPT_OVERHEAD_ESTIMATE := p\<rparr>) = history_token_budget cfg"
  by (simp add: history_token_budget_def)

lemma manage_ignores_overhead:
  "manage_history_and_get_context (cfg\<lparr>PROMPT_OVERHEAD_ESTIMATE := p\<rparr>) model prev chat
       discipline st =
   manage_history_and_get_context cfg model prev chat discipline st"
  unfolding manage_history_and_get_context_def budgeted_history_def
    split_history_ignores_overhead history_token_budget_ignores_overhead
  by (rule refl)
section \<open>The claims\<close>

text \<open>
  C1 (as amended). When the verbatim window alone exceeds the history token budget (its
  measured count is above the budget, the summary's count being non-negative), the call
  returns normally with a context block that holds no turn text. The returned summary is
  not empty: it is the fixed marker "[History discarded due to excessive verbatim length]",
  the verbatim turn list is emptied, and the block is the marker under the summary heading
  followed by "(No recent verbatim turns available)". The degradation is signalled by that
  marker in the returned pair and by an ERROR line on stderr, the last event of the trace.
\<close>

theorem hard_overflow_returns_marker:
  assumes "history_token_budget cfg = Some b"
    and "split_history cfg (turn_lists st chat_history) = (older, verbatim)"
    and "initial_measurement model older verbatim discipline st = (Inr (s1, stok, vtok), st1)"
    and "0 \<le> stok" and "b < vtok"
  shows "manage_history_and_get_context cfg model prev chat_history discipline st =
           (Inr (''Summary of Older Conversation Turns:'' @ NL
                 @ ''  [History discarded due to excessive verbatim length]'' @ NL @ NL
                 @ ''Recent Verbatim Conversation Turns:'' @ NL
                 @ ''  (No recent verbatim turns available)'',
                 ''[History discarded due to excessive verbatim length]''),
            emit (Stderr (hard_overflow_error vtok b))
              (emit (Stdout (overflow_warning (stok + vtok) b)) st1)) \<and>
         budgeted_history cfg model prev chat_history discipline st =
           (Inr (''[History discarded due to excessive verbatim length]'', []),
            emit (Stderr (hard_overflow_error vtok b))
              (emit (Stdout (overflow_warning (stok + vtok) b)) st1))"
proof -
  from assms(4,5) have over: "stok + vtok > b" and neg: "b - vtok < 0" by simp_all
  have bh: "budgeted_history cfg model prev chat_history discipline st =
      (Inr (discarded_marker, []),
       emit (Stderr (hard_overflow_error vtok b))
         (emit (Stdout (overflow_warning (stok + vtok) b)) st1))"
    by (simp add: budgeted_history_unfold [OF assms(1-3)] enforce_budget_hard [OF over neg])
  have fmt: "format_history_for_prompt discarded_marker [] =
      ''Summary of Older Conversation Turns:'' @ NL
      @ ''  [History discarded due to excessive verbatim length]'' @ NL @ NL
      @ ''Recent Verbatim Conversation Turns:'' @ NL
      @ ''  (No recent verbatim turns available)''"
    by (simp add: format_history_for_prompt_def history_header_def discarded_marker_def
          indent_lines_def NL_def)
  show ?thesis
    using manage_unfold [OF bh] bh fmt by (simp add: discarded_marker_def)
qed

text \<open>
  Witness for C1: two turns (25 characters) at 4000 tokens per character, 100000 tokens.
\<close>

theorem hard_overflow_returns_marker_witness:
  "fst (manage_history_and_get_context shipped (per_char_model 4000 (GenText ''S'')) ''old'' 0 ''Physics''
          (session (per_char_model 4000 (GenText ''S'')) [user_says ''hello'', tutor_says ''hi''])) =
   Inr (''Summary of Older Conversation Turns:'' @ NL
        @ ''  [History discarded due to excessive verbatim length]'' @ NL @ NL
        @ ''Recent Verbatim Conversation Turns:'' @ NL
        @ ''  (No recent verbatim turns available)'',
        ''[History discarded due to excessive verbatim length]'')"
proof -
  let ?m = "per_char_model 4000 (GenText ''S'')"
  let ?log = "[user_says ''hello'', tutor_says ''hi'']"
  let ?st = "session ?m ?log"
  have sp: "split_history shipped (turn_lists ?st 0) = ([], ?log)"
    by (simp add: split_history_def shipped_last session_def)
  have im: "initial_measurement ?m [] ?log ''Physics'' ?st =
      (Inr ([], 0, 100000), snd (initial_measurement ?m [] ?log ''Physics'' ?st))"
    by (simp add: run_defs)
  show ?thesis
    using hard_overflow_returns_marker [OF shipped_budget sp im, of "''old''"] by simp
qed

text \<open>
  C1 as stated fails: one turn of 11 characters under a service counting 4000 tokens per
  character measures 44000 tokens against a budget of 25600; the returned summary is the
  marker, not the empty string, and the block is not the "no history yet" text.
\<close>

theorem hard_overflow_summary_not_empty:
  "history_token_budget shipped = Some 25600 \<and>
   fst (initial_measurement (per_char_model 4000 (GenText ''S'')) [] [user_says ''hello''] ''Physics''
          (session (per_char_model 4000 (GenText ''S'')) [user_says ''hello''])) =
     Inr ([], 0, 44000) \<and>
   fst (manage_history_and_get_context shipped (per_char_model 4000 (GenText ''S'')) [] 0 ''Physics''
          (session (per_char_model 4000 (GenText ''S'')) [user_says ''hello''])) \<noteq>
     Inr (''No conversation history for this concept yet.'', []) \<and>
   snd (projr (fst (manage_history_and_get_context shipped (per_char_model 4000 (GenText ''S'')) []
          0 ''Physics'' (session (per_char_model 4000 (GenText ''S'')) [user_says ''hello''])))) =
     ''[History discarded due to excessive verbatim length]''"
  by (simp add: run_defs shipped_budget shipped_last)

text \<open>
  C2 (as amended). For every turn log and every token oracle that returns consistent counts,
  after the manager has chosen the final summary and verbatim turns, their counted tokens
  (summary plus rendered verbatim turns) are at most the history budget, with two
  exceptions. One is the hard-overflow case, where the verbatim turns are emptied and the
  summary is the fixed marker (whose tokens are not counted). The other is the best-effort
  case: the older turns were summarized again and the re-measured total is still over the
  budget; the result is returned as it is and the last thing printed is the warning
  "Re-summarization still resulted in ... tokens" carrying that total.
\<close>

theorem budget_respected_or_degradation_reported:
  assumes "consistent_counts m f" and "model_instance st = Some m"
    and "history_token_budget cfg = Some b"
    and "budgeted_history cfg model prev chat_history discipline st = (Inr (summary, turns), st')"
  shows "fst (count_tokens summary st') + fst (count_tokens (verbatim_turns_text turns) st') \<le> b
       \<or> (summary = ''[History discarded due to excessive verbatim length]'' \<and> turns = [] \<and>
            (\<exists>n. last (trace st') = Stderr (hard_overflow_error n b)))
       \<or> last (trace st') = Stdout (still_over_warning
            (fst (count_tokens summary st') + fst (count_tokens (verbatim_turns_text turns) st')) b)"
proof -
  obtain older verbatim where sp: "split_history cfg (turn_lists st chat_history) = (older, verbatim)"
    by (cases "split_history cfg (turn_lists st chat_history)")
  obtain s1 st1 where im: "initial_measurement model older verbatim discipline st =
       (Inr (s1, fst (count_tokens s1 st1),
             fst (count_tokens (verbatim_turns_text verbatim) (snd (count_tokens s1 st1)))),
        snd (count_tokens (verbatim_turns_text verbatim) (snd (count_tokens s1 st1))))"
    and ext: "extends st st1"
    using initial_measurement_cases [of model older verbatim discipline st] by blast
  let ?st2 = "snd (count_tokens s1 st1)"
  let ?st3 = "snd (count_tokens (verbatim_turns_text verbatim) ?st2)"
  have m1: "model_instance st1 = Some m" by (rule extends_model [OF ext assms(2)])
  have m2: "model_instance ?st2 = Some m" by (rule extends_model [OF count_tokens_extends m1])
  have m3: "model_instance ?st3 = Some m" by (rule extends_model [OF count_tokens_extends m2])
  have c1: "fst (count_tokens s1 st1) = reported_count f s1"
    by (rule count_tokens_consistent [OF assms(1) m1])
  have c2: "fst (count_tokens (verbatim_turns_text verbatim) ?st2) =
            reported_count f (verbatim_turns_text verbatim)"
    by (rule count_tokens_consistent [OF assms(1) m2])
  have eb: "enforce_budget b model older verbatim discipline s1 (fst (count_tokens s1 st1))
              (fst (count_tokens (verbatim_turns_text verbatim) ?st2)) ?st3 =
            (Inr (summary, turns), st')"
    using budgeted_history_unfold [OF assms(3) sp im] assms(4) by simp
  have "extends ?st3 st'"
    using enforce_budget_extends [of ?st3 b model older verbatim discipline s1
        "fst (count_tokens s1 st1)" "fst (count_tokens (verbatim_turns_text verbatim) ?st2)"]
    by (simp add: eb)
  then have m': "model_instance st' = Some m" by (rule extends_model [OF _ m3])
  have r: "fst (count_tokens t st') = reported_count f t" for t
    by (rule count_tokens_consistent [OF assms(1) m'])
  from enforce_budget_consistent [OF assms(1) m3 c1 c2 eb]
  show ?thesis by (simp add: r discarded_marker_def)
qed

text \<open>
  Witness for C2: eleven turns at one token per character; 36 + 128 tokens fit the budget.
\<close>

theorem budget_respected_or_degradation_reported_witness:
  "fst (count_tokens ''The student mixes up price and cost.''
          (snd (budgeted_history shipped
             (per_char_model 1 (GenText ''The student mixes up price and cost.'')) [] 0 ''Physics''
             (session (per_char_model 1 (GenText ''The student mixes up price and cost.'')) eleven_turns))))
   + fst (count_tokens (verbatim_turns_text (drop 1 eleven_turns))
          (snd (budgeted_history shipped
             (per_char_model 1 (GenText ''The student mixes up price and cost.'')) [] 0 ''Physics''
             (session (per_char_model 1 (GenText ''The student mixes up price and cost.'')) eleven_turns))))
   \<le> 25600"
proof -
  let ?m = "per_char_model 1 (GenText ''The student mixes up price and cost.'')"
  let ?st = "session ?m eleven_turns"
  let ?r = "budgeted_history shipped ?m [] 0 ''Physics'' ?st"
  have cc: "consistent_counts ?m (per_char_count 1)"
    by (simp add: consistent_counts_def per_char_model_def)
  have mi: "model_instance ?st = Some ?m" by (simp add: session_def)
  have h4: "?r = (Inr (''The student mixes up price and cost.'', drop 1 eleven_turns), snd ?r)"
    by (simp add: run_defs shipped_budget shipped_last)
  have tr: "last (trace (snd ?r)) = CountRequest (verbatim_turns_text (drop 1 eleven_turns))"
    by (simp add: run_defs shipped_budget shipped_last)
  from budget_respected_or_degradation_reported [OF cc mi shipped_budget h4] tr
  show ?thesis by (simp add: discarded_marker_def)
qed

text \<open>
  C2 as stated fails: at 190 tokens per character the ten verbatim turns (128 characters)
  count 24320 tokens and the summary (36 characters) 6840. The summarizer, asked again with
  a target of 1280 tokens, returns the same text; the manager returns it with the ten
  turns, 31160 tokens against a budget of 25600, and neither of them is empty.
\<close>

theorem resummarized_history_still_over_budget:
  "consistent_counts (per_char_model 190 (GenText ''The student mixes up price and cost.''))
     (per_char_count 190) \<and>
   history_token_budget shipped = Some 25600 \<and>
   fst (budgeted_history shipped
          (per_char_model 190 (GenText ''The student mixes up price and cost.'')) [] 0 ''Physics''
          (session (per_char_model 190 (GenText ''The student mixes up price and cost.'')) eleven_turns))
     = Inr (''The student mixes up price and cost.'', drop 1 eleven_turns) \<and>
   fst (count_tokens ''The student mixes up price and cost.''
          (snd (budgeted_history shipped
             (per_char_model 190 (GenText ''The student mixes up price and cost.'')) [] 0 ''Physics''
             (session (per_char_model 190 (GenText ''The student mixes up price and cost.'')) eleven_turns))))
   + fst (count_tokens (verbatim_turns_text (drop 1 eleven_turns))
          (snd (budgeted_history shipped
             (per_char_model 190 (GenText ''The student mixes up price and cost.'')) [] 0 ''Physics''
             (session (per_char_model 190 (GenText ''The student mixes up price and cost.'')) eleven_turns))))
     = 31160"
  by (simp add: run_defs float_defs shipped_budget shipped_last consistent_counts_def)

text \<open>
  C3 (as amended). For every turn log (and a non-negative window size), the verbatim window
  computed at step 1 is exactly the most recent min(LAST\_VERBATIM\_TURNS, length of the log)
  turns, in the original order and unmodified (a suffix of the log), and the older turns are
  exactly the rest (the matching prefix): no turn is in both and none is lost. When there
  are older turns, all of them are sent to the summarizer: the trace of the call holds a
  generation request whose prompt lists every older turn. Unless the hard-overflow branch is
  taken, the returned block is the formatting of the returned summary with exactly that
  window, and the returned summary is what the summarizer returned for the older turns on
  its latest call (the empty string when there are none). When the hard-overflow branch is
  taken, the block holds no verbatim turn and the summary is the discard marker, so neither
  the window nor the older turns are represented. The call returns a block whenever the
  verbatim count is non-negative and the budget is below 2^53.
\<close>

theorem verbatim_window_kept_unless_hard_overflow:
  assumes "0 \<le> LAST_VERBATIM_TURNS cfg"
    and "split_history cfg (turn_lists st chat_history) = (older, verbatim)"
    and "history_token_budget cfg = Some b"
    and "initial_measurement model older verbatim discipline st = (Inr (s1, stok, vtok), st1)"
  shows "older @ verbatim = turn_lists st chat_history \<and>
         length verbatim = min (nat (LAST_VERBATIM_TURNS cfg)) (length (turn_lists st chat_history)) \<and>
         verbatim = drop (length (turn_lists st chat_history) - nat (LAST_VERBATIM_TURNS cfg))
                      (turn_lists st chat_history) \<and>
         older = take (length (turn_lists st chat_history) - nat (LAST_VERBATIM_TURNS cfg))
                      (turn_lists st chat_history) \<and>
         (older \<noteq> [] \<longrightarrow>
            (\<exists>es. trace (snd (manage_history_and_get_context cfg model prev chat_history discipline st))
                    = trace st @ es \<and>
                  GenerateRequest (summary_prompt discipline (join NL (map summary_line older)) [])
                    \<in> set es)) \<and>
         (\<forall>block s.
            fst (manage_history_and_get_context cfg model prev chat_history discipline st)
              = Inr (block, s) \<longrightarrow>
            (if stok + vtok > b \<and> b - vtok < 0
             then block = format_history_for_prompt s [] \<and>
                  s = ''[History discarded due to excessive verbatim length]''
             else block = format_history_for_prompt s verbatim \<and>
                  (if older = [] then s = []
                   else if stok + vtok > b then
                     fst (summarize_history model older discipline (Some (b - vtok))
                            (emit (Stdout (targeting_note (b - vtok)))
                               (emit (Stdout (overflow_warning (stok + vtok) b)) st1))) = Inr s
                   else fst (summarize_history model older discipline None st) = Inr s))) \<and>
         (0 \<le> vtok \<and> b < 2 ^ 53 \<longrightarrow>
            (\<exists>block s.
               fst (manage_history_and_get_context cfg model prev chat_history discipline st)
                 = Inr (block, s)))"
proof -
  note sf = split_history_facts [OF assms(1,2)]
  let ?bh = "budgeted_history cfg model prev chat_history discipline st"
  let ?m = "manage_history_and_get_context cfg model prev chat_history discipline st"
  have bh: "?bh = enforce_budget b model older verbatim discipline s1 stok vtok st1"
    by (rule budgeted_history_unfold [OF assms(3,2,4)])
  have snd_m: "snd ?m = snd ?bh"
    by (simp add: manage_history_and_get_context_def split: prod.splits sum.splits)
  have e: "older = [] \<longrightarrow> s1 = []"
    using assms(4) initial_measurement_no_older by blast
  have o: "fst (summarize_history model older discipline None st) = Inr s1" if "older \<noteq> []"
    by (rule initial_measurement_older [OF that assms(4)])
  have req: "\<exists>es. trace (snd ?m) = trace st @ es \<and>
      GenerateRequest (summary_prompt discipline (join NL (map summary_line older)) []) \<in> set es"
    if ne: "older \<noteq> []"
  proof -
    let ?sh = "summarize_history model older discipline None st"
    from o [OF ne] have sh: "?sh = (Inr s1, snd ?sh)" by (metis prod.collapse)
    from summarize_history_request [OF ne sh]
    obtain es where es: "trace (snd ?sh) = trace st @ es"
      and mem: "GenerateRequest (summary_prompt discipline (join NL (map summary_line older)) []) \<in> set es"
      by auto
    from ne assms(4) have "st1 = snd (count_tokens (verbatim_turns_text verbatim)
        (snd (count_tokens s1 (snd ?sh))))"
      by (auto simp: initial_measurement_def split: prod.splits sum.splits)
    then have "extends (snd ?sh) st1"
      using extends_trans [OF count_tokens_extends count_tokens_extends] by simp
    then have "extends (snd ?sh) (snd ?bh)"
      unfolding bh by (rule extends_trans [OF _ enforce_budget_extends])
    then obtain es2 where "trace (snd ?bh) = trace (snd ?sh) @ es2" by (auto simp: extends_def)
    with es have "trace (snd ?m) = trace st @ (es @ es2)" by (simp add: snd_m)
    moreover from mem have "GenerateRequest (summary_prompt discipline
        (join NL (map summary_line older)) []) \<in> set (es @ es2)" by simp
    ultimately show ?thesis by blast
  qed
  have fin: "if stok + vtok > b \<and> b - vtok < 0
             then block = format_history_for_prompt s [] \<and>
                  s = ''[History discarded due to excessive verbatim length]''
             else block = format_history_for_prompt s verbatim \<and>
                  (if older = [] then s = []
                   else if stok + vtok > b then
                     fst (summarize_history model older discipline (Some (b - vtok))
                            (emit (Stdout (targeting_note (b - vtok)))
                               (emit (Stdout (overflow_warning (stok + vtok) b)) st1))) = Inr s
                   else fst (summarize_history model older discipline None st) = Inr s)"
    if "fst ?m = Inr (block, s)" for block s
  proof -
    from manage_result [OF that] obtain v where r: "?bh = (Inr (s, v), snd ?bh)"
      and blk: "block = format_history_for_prompt s v" by blast
    from r have "enforce_budget b model older verbatim discipline s1 stok vtok st1 =
        (Inr (s, v), snd ?bh)" by (simp add: bh)
    from enforce_budget_outcome [OF e this] o blk show ?thesis
      by (auto simp: discarded_marker_def split: if_splits)
  qed
  have ret: "\<exists>block s. fst ?m = Inr (block, s)" if "0 \<le> vtok \<and> b < 2 ^ 53"
  proof -
    from that obtain s v where
      "fst (enforce_budget b model older verbatim discipline s1 stok vtok st1) = Inr (s, v)"
      using enforce_budget_returns [of vtok b] by blast
    then have "?bh = (Inr (s, v), snd ?bh)" by (simp add: bh prod_eq_iff)
    then have "?m = (Inr (format_history_for_prompt s v, s), snd ?bh)" by (rule manage_unfold)
    then show ?thesis by simp
  qed
  show ?thesis
  proof (intro conjI allI impI)
    show "older @ verbatim = turn_lists st chat_history" by (rule sf(1))
    show "length verbatim = min (nat (LAST_VERBATIM_TURNS cfg)) (length (turn_lists st chat_history))"
      by (rule sf(2))
    show "verbatim = drop (length (turn_lists st chat_history) - nat (LAST_VERBATIM_TURNS cfg))
                      (turn_lists st chat_history)" by (rule sf(3))
    show "older = take (length (turn_lists st chat_history) - nat (LAST_VERBATIM_TURNS cfg))
                      (turn_lists st chat_history)" by (rule sf(4))
  qed (rule req fin ret, assumption)+
qed

text \<open>
  Witness for C3: eleven turns under the shipped configuration, nothing over budget; the
  first turn is summarized, the last ten are rendered with that summary.
\<close>

theorem verbatim_window_kept_unless_hard_overflow_witness:
  "[user_says ''a''] @ drop 1 eleven_turns = eleven_turns \<and>
   length (drop 1 eleven_turns) = 10 \<and>
   (\<exists>es. trace (snd (manage_history_and_get_context shipped
              (per_char_model 1 (GenText ''The student mixes up price and cost.'')) ''old'' 0 ''Physics''
              (session (per_char_model 1 (GenText ''The student mixes up price and cost.'')) eleven_turns)))
            = es \<and>
          GenerateRequest (summary_prompt ''Physics'' ''User: a'' []) \<in> set es) \<and>
   fst (manage_history_and_get_context shipped
          (per_char_model 1 (GenText ''The student mixes up price and cost.'')) ''old'' 0 ''Physics''
          (session (per_char_model 1 (GenText ''The student mixes up price and cost.'')) eleven_turns)) =
     Inr (format_history_for_prompt ''The student mixes up price and cost.'' (drop 1 eleven_turns),
          ''The student mixes up price and cost.'')"
proof -
  let ?m = "per_char_model 1 (GenText ''The student mixes up price and cost.'')"
  let ?st = "session ?m eleven_turns"
  let ?r = "manage_history_and_get_context shipped ?m ''old'' 0 ''Physics'' ?st"
  have h1: "0 \<le> LAST_VERBATIM_TURNS shipped" by (simp add: shipped_last)
  have h2: "split_history shipped (turn_lists ?st 0) = ([user_says ''a''], drop 1 eleven_turns)"
    by (simp add: split_history_def shipped_last session_def eleven_turns_def)
  have h4: "initial_measurement ?m [user_says ''a''] (drop 1 eleven_turns) ''Physics'' ?st =
      (Inr (''The student mixes up price and cost.'', 36, 128),
       snd (initial_measurement ?m [user_says ''a''] (drop 1 eleven_turns) ''Physics'' ?st))"
    by (simp add: run_defs)
  have r: "fst ?r = Inr (fst (projr (fst ?r)), ''The student mixes up price and cost.'')"
    by (simp add: run_defs shipped_budget shipped_last)
  have l: "summary_line (user_says ''a'') = ''User: a''"
    by (simp add: summary_line_def user_says_def strip_def isspace_def ascii_upper_def ascii_lower_def)
  have t: "trace ?st = []" "turn_lists ?st 0 = eleven_turns" by (simp_all add: session_def)
  note inst = verbatim_window_kept_unless_hard_overflow [OF h1 h2 shipped_budget h4, of "''old''"]
  from inst r have "fst (projr (fst ?r)) =
      format_history_for_prompt ''The student mixes up price and cost.'' (drop 1 eleven_turns)"
    by auto
  with r have b: "fst ?r = Inr (format_history_for_prompt ''The student mixes up price and cost.''
      (drop 1 eleven_turns), ''The student mixes up price and cost.'')" by simp
  from inst have "[user_says ''a''] @ drop 1 eleven_turns = turn_lists ?st 0"
    and "length (drop 1 eleven_turns) = min (nat (LAST_VERBATIM_TURNS shipped)) (length (turn_lists ?st 0))"
    and "\<exists>es. trace (snd ?r) = trace ?st @ es \<and>
          GenerateRequest (summary_prompt ''Physics'' (join NL (map summary_line [user_says ''a''])) [])
            \<in> set es"
    by blast+
  moreover have "length eleven_turns = 11" by (simp add: eleven_turns_def)
  ultimately show ?thesis
    using b by (simp add: l t shipped_last)
qed

text \<open>
  C3 as stated fails: eleven turns at 1000 tokens per character. The window computed at
  step 1 is the last ten turns and the summarizer has answered for the first turn, but the
  window (128000 tokens) exceeds the budget, so the final verbatim turns are empty and the
  final summary is the discard marker, not the summarizer's text.
\<close>

theorem hard_overflow_empties_computed_window:
  "snd (split_history shipped eleven_turns) = drop 1 eleven_turns \<and>
   length (drop 1 eleven_turns) = 10 \<and>
   fst (summarize_history (per_char_model 1000 (GenText ''The student mixes up price and cost.''))
          [user_says ''a''] ''Physics'' None
          (session (per_char_model 1000 (GenText ''The student mixes up price and cost.'')) eleven_turns)) =
     Inr ''The student mixes up price and cost.'' \<and>
   fst (budgeted_history shipped
          (per_char_model 1000 (GenText ''The student mixes up price and cost.'')) [] 0 ''Physics''
          (session (per_char_model 1000 (GenText ''The student mixes up price and cost.'')) eleven_turns)) =
     Inr (''[History discarded due to excessive verbatim length]'', [])"
  by (simp add: run_defs shipped_budget shipped_last)

text \<open>
  C4 (as amended). For every turn log longer than the window, unless the hard-overflow
  branch is taken, the turns rendered in the returned context block are exactly the last
  LAST\_VERBATIM\_TURNS turns of the log, in order. Each is rendered as a line "- Role:"
  followed by its content with surrounding whitespace stripped and every line after the
  first indented by two spaces; a content that is a single line without surrounding
  whitespace therefore appears unchanged. When the hard-overflow branch is taken the block
  holds no turn at all (see C1).
\<close>

theorem verbatim_section_renders_last_window:
  assumes "history_token_budget cfg = Some b"
    and "0 \<le> LAST_VERBATIM_TURNS cfg"
    and "int (length (turn_lists st chat_history)) > LAST_VERBATIM_TURNS cfg"
    and "split_history cfg (turn_lists st chat_history) = (older, verbatim)"
    and "initial_measurement model older verbatim discipline st = (Inr (s1, stok, vtok), st1)"
    and "\<not> (stok + vtok > b \<and> b - vtok < 0)"
    and "manage_history_and_get_context cfg model prev chat_history discipline st =
           (Inr (block, summary), st')"
  shows "verbatim = drop (length (turn_lists st chat_history) - nat (LAST_VERBATIM_TURNS cfg))
                      (turn_lists st chat_history) \<and>
         length verbatim = nat (LAST_VERBATIM_TURNS cfg) \<and>
         block = format_history_for_prompt summary verbatim \<and>
         (verbatim \<noteq> [] \<longrightarrow>
            block = join NL (history_header summary @ map render_turn verbatim)) \<and>
         (\<forall>t \<in> set verbatim.
            render_turn t = ''- '' @ capitalize (role_str (role t)) @ '':'' @ NL @ ''  ''
                            @ indent_lines (strip (content t))) \<and>
         (\<forall>t \<in> set verbatim.
            CHR 0x0A \<notin> set (content t) \<and>
            (content t = [] \<or> (\<not> isspace (hd (content t)) \<and> \<not> isspace (last (content t)))) \<longrightarrow>
            render_turn t = ''- '' @ capitalize (role_str (role t)) @ '':'' @ NL @ ''  '' @ content t)"
proof -
  note sf = split_history_facts [OF assms(2,4)]
  from assms(3) sf(2) have len: "length verbatim = nat (LAST_VERBATIM_TURNS cfg)" by simp
  let ?eb = "enforce_budget b model older verbatim discipline s1 stok vtok st1"
  have bh: "budgeted_history cfg model prev chat_history discipline st = ?eb"
    by (rule budgeted_history_unfold [OF assms(1,4,5)])
  from assms(7) obtain v where eb: "?eb = (Inr (summary, v), st')"
    and blk: "block = format_history_for_prompt summary v"
    by (auto simp: manage_history_and_get_context_def bh split: prod.splits sum.splits)
  have v: "v = verbatim" by (rule enforce_budget_keeps_window [OF assms(6) eb])
  have clean: "render_turn t = ''- '' @ capitalize (role_str (role t)) @ '':'' @ NL @ ''  '' @ content t"
    if "CHR 0x0A \<notin> set (content t) \<and>
        (content t = [] \<or> (\<not> isspace (hd (content t)) \<and> \<not> isspace (last (content t))))" for t
    using that by (intro render_turn_clean) simp_all
  have shape: "render_turn t = ''- '' @ capitalize (role_str (role t)) @ '':'' @ NL @ ''  ''
                            @ indent_lines (strip (content t))" for t
    by (simp add: render_turn_def)
  from blk v have blk': "block = format_history_for_prompt summary verbatim" by simp
  show ?thesis
    using sf(3) len blk' clean shape by (simp add: format_with_turns)
qed

text \<open>
  Witness for C4: eleven turns, nothing over budget; the block renders the last ten turns
  and the single-line content of the last one appears as it is.
\<close>

theorem verbatim_section_renders_last_window_witness:
  "fst (manage_history_and_get_context shipped
          (per_char_model 1 (GenText ''Cost and price.'')) [] 0 ''Physics''
          (session (per_char_model 1 (GenText ''Cost and price.'')) eleven_turns)) =
     Inr (join NL (history_header ''Cost and price.'' @ map render_turn (drop 1 eleven_turns)),
          ''Cost and price.'') \<and>
   render_turn (user_says ''I think it is about cost.'') =
     ''- User:'' @ NL @ ''  I think it is about cost.''"
proof -
  let ?m = "per_char_model 1 (GenText ''Cost and price.'')"
  let ?st = "session ?m eleven_turns"
  let ?r = "manage_history_and_get_context shipped ?m [] 0 ''Physics'' ?st"
  have h2: "0 \<le> LAST_VERBATIM_TURNS shipped" by (simp add: shipped_last)
  have h3: "int (length (turn_lists ?st 0)) > LAST_VERBATIM_TURNS shipped"
    by (simp add: shipped_last session_def eleven_turns_def)
  have h4: "split_history shipped (turn_lists ?st 0) = ([user_says ''a''], drop 1 eleven_turns)"
    by (simp add: split_history_def shipped_last session_def eleven_turns_def)
  have h5: "initial_measurement ?m [user_says ''a''] (drop 1 eleven_turns) ''Physics'' ?st =
      (Inr (''Cost and price.'', 15, 128),
       snd (initial_measurement ?m [user_says ''a''] (drop 1 eleven_turns) ''Physics'' ?st))"
    by (simp add: run_defs)
  have h6: "\<not> ((15::int) + 128 > 25600 \<and> (25600::int) - 128 < 0)" by simp
  have h7: "?r = (Inr (fst (projr (fst ?r)), ''Cost and price.''), snd ?r)"
    by (simp add: run_defs shipped_budget shipped_last)
  have ne: "drop 1 eleven_turns \<noteq> []" by (simp add: eleven_turns_def)
  have mem: "user_says ''I think it is about cost.'' \<in> set (drop 1 eleven_turns)"
    by (simp add: eleven_turns_def)
  have cl: "CHR 0x0A \<notin> set (content (user_says ''I think it is about cost.'')) \<and>
      (content (user_says ''I think it is about cost.'') = [] \<or>
       (\<not> isspace (hd (content (user_says ''I think it is about cost.''))) \<and>
        \<not> isspace (last (content (user_says ''I think it is about cost.'')))))"
    by (simp add: user_says_def isspace_def)
  have cap: "capitalize (role_str (role (user_says ''I think it is about cost.''))) = ''User''"
    by (simp add: user_says_def ascii_upper_def ascii_lower_def)
  note t = verbatim_section_renders_last_window [OF shipped_budget h2 h3 h4 h5 h6 h7]
  from t ne have "fst (projr (fst ?r)) =
      join NL (history_header ''Cost and price.'' @ map render_turn (drop 1 eleven_turns))"
    by blast
  with h7 have a: "fst ?r = Inr (join NL (history_header ''Cost and price.''
      @ map render_turn (drop 1 eleven_turns)), ''Cost and price.'')"
    by (metis fst_conv)
  from t mem cl have "render_turn (user_says ''I think it is about cost.'') =
      ''- '' @ capitalize (role_str (role (user_says ''I think it is about cost.''))) @ '':'' @ NL
      @ ''  '' @ content (user_says ''I think it is about cost.'')"
    by blast
  then have b: "render_turn (user_says ''I think it is about cost.'') =
     ''- User:'' @ NL @ ''  I think it is about cost.''"
    by (simp add: cap) (simp add: user_says_def)
  from a b show ?thesis by simp
qed

text \<open>
  C4 as stated fails: eleven turns under a service that counts 4000 tokens per character;
  the window of ten turns (128 characters, 512000 tokens) exceeds the budget, so the block
  lists none of the last ten turns.
\<close>

theorem hard_overflow_drops_verbatim_window:
  "int (length eleven_turns) > LAST_VERBATIM_TURNS shipped \<and>
   fst (budgeted_history shipped (per_char_model 4000 (GenText ''S'')) [] 0 ''Physics''
          (session (per_char_model 4000 (GenText ''S'')) eleven_turns)) =
     Inr (''[History discarded due to excessive verbatim length]'', []) \<and>
   fst (manage_history_and_get_context shipped (per_char_model 4000 (GenText ''S'')) [] 0 ''Physics''
          (session (per_char_model 4000 (GenText ''S'')) eleven_turns)) =
     Inr (''Summary of Older Conversation Turns:'' @ NL
          @ ''  [History discarded due to excessive verbatim length]'' @ NL @ NL
          @ ''Recent Verbatim Conversation Turns:'' @ NL
          @ ''  (No recent verbatim turns available)'',
          ''[History discarded due to excessive verbatim length]'')"
  by (simp add: run_defs shipped_budget shipped_last)

text \<open>
  C5 (as amended). The returned summary never depends on the previous summary passed in.
  Unless the hard-overflow branch is taken: when there are no older turns it is the empty
  string; when there are older turns it is what the summarizer returned for those turns on
  its latest call, which is the first call (no length hint) when the first measurement is
  within budget and the second call (hint: budget minus verbatim tokens) otherwise. When the
  hard-overflow branch is taken the returned summary is the fixed marker
  "[History discarded due to excessive verbatim length]", with or without older turns.
\<close>

theorem returned_summary_is_fresh_or_marker:
  assumes "history_token_budget cfg = Some b"
    and "split_history cfg (turn_lists st chat_history) = (older, verbatim)"
    and "initial_measurement model older verbatim discipline st = (Inr (s1, stok, vtok), st1)"
    and "manage_history_and_get_context cfg model prev chat_history discipline st =
           (Inr (block, summary), st')"
  shows "(if stok + vtok > b \<and> b - vtok < 0 then
            summary = ''[History discarded due to excessive verbatim length]''
          else if older = [] then summary = []
          else if stok + vtok > b then
            fst (summarize_history model older discipline (Some (b - vtok))
                   (emit (Stdout (targeting_note (b - vtok)))
                      (emit (Stdout (overflow_warning (stok + vtok) b)) st1))) = Inr summary
          else fst (summarize_history model older discipline None st) = Inr summary) \<and>
         manage_history_and_get_context cfg model other_prev chat_history discipline st =
           (Inr (block, summary), st')"
proof -
  let ?eb = "enforce_budget b model older verbatim discipline s1 stok vtok st1"
  have bh: "budgeted_history cfg model prev chat_history discipline st = ?eb"
    by (rule budgeted_history_unfold [OF assms(1-3)])
  from assms(4) have "\<exists>v. fst ?eb = Inr (summary, v)"
    by (auto simp: manage_history_and_get_context_def bh split: prod.splits sum.splits)
  then obtain v where eb: "fst ?eb = Inr (summary, v)" by auto
  have ind: "manage_history_and_get_context cfg model other_prev chat_history discipline st =
           (Inr (block, summary), st')"
    using assms(4) manage_ignores_previous [of cfg model other_prev chat_history discipline st prev]
    by simp
  consider (hard) "stok + vtok > b" "b - vtok < 0"
    | (empty) "\<not> (stok + vtok > b \<and> b - vtok < 0)" "older = []"
    | (again) "\<not> (stok + vtok > b \<and> b - vtok < 0)" "older \<noteq> []" "stok + vtok > b"
    | (fits) "older \<noteq> []" "\<not> stok + vtok > b"
    by blast
  then have "if stok + vtok > b \<and> b - vtok < 0 then
            summary = ''[History discarded due to excessive verbatim length]''
          else if older = [] then summary = []
          else if stok + vtok > b then
            fst (summarize_history model older discipline (Some (b - vtok))
                   (emit (Stdout (targeting_note (b - vtok)))
                      (emit (Stdout (overflow_warning (stok + vtok) b)) st1))) = Inr summary
          else fst (summarize_history model older discipline None st) = Inr summary"
  proof cases
    case hard
    with eb show ?thesis by (simp add: enforce_budget_hard discarded_marker_def)
  next
    case empty
    with assms(3) have s1: "s1 = []" by (simp add: initial_measurement_no_older)
    from empty eb s1 show ?thesis
      by (auto simp: enforce_budget_def Let_def split: if_splits)
  next
    case again
    then have a: "0 \<le> b - vtok" by simp
    from eb show ?thesis
      using again
      by (auto simp: enforce_budget_resummarize [OF again(3) a again(2)]
               split: prod.splits sum.splits)
  next
    case fits
    then have "stok + vtok \<le> b" by simp
    with eb have "summary = s1" by (simp add: enforce_budget_within)
    with fits initial_measurement_older [OF fits(1) assms(3)] show ?thesis by simp
  qed
  with ind show ?thesis by blast
qed

text \<open>
  Witness for C5: eleven turns, one token per character, nothing over budget; the returned
  summary is the summarizer's answer for the one older turn, stripped.
\<close>

theorem returned_summary_is_fresh_or_marker_witness:
  "fst (summarize_history (per_char_model 1 (GenText '' The student mixes up price and cost. ''))
          [user_says ''a''] ''Physics'' None
          (session (per_char_model 1 (GenText '' The student mixes up price and cost. '')) eleven_turns)) =
     Inr ''The student mixes up price and cost.'' \<and>
   snd (projr (fst (manage_history_and_get_context shipped
          (per_char_model 1 (GenText '' The student mixes up price and cost. '')) ''another'' 0 ''Physics''
          (session (per_char_model 1 (GenText '' The student mixes up price and cost. '')) eleven_turns)))) =
     ''The student mixes up price and cost.''"
proof -
  let ?m = "per_char_model 1 (GenText '' The student mixes up price and cost. '')"
  let ?st = "session ?m eleven_turns"
  let ?r = "manage_history_and_get_context shipped ?m ''old'' 0 ''Physics'' ?st"
  have h2: "split_history shipped (turn_lists ?st 0) = ([user_says ''a''], drop 1 eleven_turns)"
    by (simp add: split_history_def shipped_last session_def eleven_turns_def)
  have h3: "initial_measurement ?m [user_says ''a''] (drop 1 eleven_turns) ''Physics'' ?st =
      (Inr (''The student mixes up price and cost.'', 36, 128),
       snd (initial_measurement ?m [user_says ''a''] (drop 1 eleven_turns) ''Physics'' ?st))"
    by (simp add: run_defs)
  have h4: "?r = (Inr (fst (projr (fst ?r)), ''The student mixes up price and cost.''), snd ?r)"
    by (simp add: run_defs shipped_budget shipped_last)
  from returned_summary_is_fresh_or_marker [OF shipped_budget h2 h3 h4, of "''another''"]
  show ?thesis by simp
qed

text \<open>
  C5 as stated fails: with a single turn there are no older turns, yet under a service that
  counts 10000 tokens per character the window (10 characters, 100000 tokens) exceeds the
  budget and the returned summary is the marker, not the empty string.
\<close>

theorem hard_overflow_summary_with_no_older_turns:
  "fst (split_history shipped [user_says ''why?'']) = [] \<and>
   snd (projr (fst (manage_history_and_get_context shipped (per_char_model 10000 (GenText ''S''))
          ''earlier summary'' 0 ''Physics''
          (session (per_char_model 10000 (GenText ''S'')) [user_says ''why?'']))))
     = ''[History discarded due to excessive verbatim length]''"
  by (simp add: run_defs shipped_budget shipped_last)

text \<open>
  C6 (as amended). When the measured total exceeds the budget, there are older turns and
  the budget minus the verbatim tokens is non-negative (it is then smaller than the summary's
  count), the summarizer is invoked again on the older turns, with that difference as its
  target. If the target is positive, the prompt carries the length hint "ideally around W
  words (approx. T tokens)" with W = int(T * 0.7); if the target is exactly 0, the prompt
  carries no length hint. The new summary is counted again; if the total still exceeds the
  budget, a warning is printed and the result is returned all the same, with the verbatim
  window intact. Nothing is raised (verbatim count non-negative, budget below 2^53).
\<close>

theorem resummarize_with_target_is_best_effort:
  assumes "stok + vtok > b" and "older \<noteq> []" and "0 \<le> b - vtok"
    and "0 \<le> vtok" and "b < 2 ^ 53"
  shows "\<exists>new_summary st2 new_tokens st3 words.
           py_int_times_float (b - vtok) float_0_7 = Some words \<and>
           summarize_history model older discipline (Some (b - vtok))
             (emit (Stdout (targeting_note (b - vtok)))
                (emit (Stdout (overflow_warning (stok + vtok) b)) st)) = (Inr new_summary, st2) \<and>
           (\<exists>es. trace st2 = trace st @ es \<and>
                 GenerateRequest (summary_prompt discipline (join NL (map summary_line older))
                    (if 0 < b - vtok then length_guidance_text words (b - vtok) else [])) \<in> set es) \<and>
           count_tokens new_summary st2 = (new_tokens, st3) \<and>
           enforce_budget b model older verbatim discipline s1 stok vtok st =
             (Inr (new_summary, verbatim),
              if new_tokens + vtok > b
              then emit (Stdout (still_over_warning (new_tokens + vtok) b)) st3
              else st3)"
proof -
  let ?st1 = "emit (Stdout (targeting_note (b - vtok)))
                (emit (Stdout (overflow_warning (stok + vtok) b)) st)"
  let ?sh = "summarize_history model older discipline (Some (b - vtok)) ?st1"
  from assms(3,4,5) have small: "\<bar>b - vtok\<bar> < 2 ^ 53" by simp
  obtain words where w: "py_int_times_float (b - vtok) float_0_7 = Some words"
    using py_int_times_float_small [OF small] by blast
  have "wants_length_guidance (Some (b - vtok)) \<longrightarrow> \<bar>the (Some (b - vtok))\<bar> < 2 ^ 53"
    using small by simp
  from summarize_history_returns [OF this]
  obtain ns where f: "fst ?sh = Inr ns" by blast
  then have sh: "?sh = (Inr ns, snd ?sh)" by (metis prod.collapse)
  have g: "wants_length_guidance (Some (b - vtok)) \<longleftrightarrow> 0 < b - vtok"
    by (auto simp: wants_length_guidance_def)
  have eq: "(if wants_length_guidance (Some (b - vtok))
             then length_guidance_text (the (py_int_times_float (the (Some (b - vtok))) float_0_7))
                    (the (Some (b - vtok)))
             else []) =
            (if 0 < b - vtok then length_guidance_text words (b - vtok) else [])"
    by (cases "0 < b - vtok") (simp_all add: g w)
  from summarize_history_request [OF assms(2) sh]
  obtain es where es: "trace (snd ?sh) = trace ?st1 @ es"
    and mem: "GenerateRequest (summary_prompt discipline (join NL (map summary_line older))
                (if 0 < b - vtok then length_guidance_text words (b - vtok) else [])) \<in> set es"
    unfolding eq by blast
  have tr: "trace (snd ?sh) = trace st @ (Stdout (overflow_warning (stok + vtok) b)
              # Stdout (targeting_note (b - vtok)) # es)"
    using es by (simp add: emit_def)
  have eb: "enforce_budget b model older verbatim discipline s1 stok vtok st =
             (Inr (ns, verbatim),
              if fst (count_tokens ns (snd ?sh)) + vtok > b
              then emit (Stdout (still_over_warning (fst (count_tokens ns (snd ?sh)) + vtok) b))
                     (snd (count_tokens ns (snd ?sh)))
              else snd (count_tokens ns (snd ?sh)))"
    by (simp add: enforce_budget_resummarize [OF assms(1,3,2)] case_prod_beta f)
  show ?thesis
  proof (intro exI conjI)
    show "py_int_times_float (b - vtok) float_0_7 = Some words" by (rule w)
    show "?sh = (Inr ns, snd ?sh)" by (rule sh)
    show "trace (snd ?sh) = trace st @ (Stdout (overflow_warning (stok + vtok) b)
              # Stdout (targeting_note (b - vtok)) # es)" by (rule tr)
    show "GenerateRequest (summary_prompt discipline (join NL (map summary_line older))
                (if 0 < b - vtok then length_guidance_text words (b - vtok) else []))
          \<in> set (Stdout (overflow_warning (stok + vtok) b) # Stdout (targeting_note (b - vtok)) # es)"
      using mem by simp
    show "count_tokens ns (snd ?sh) = (fst (count_tokens ns (snd ?sh)), snd (count_tokens ns (snd ?sh)))"
      by simp
    show "enforce_budget b model older verbatim discipline s1 stok vtok st =
             (Inr (ns, verbatim),
              if fst (count_tokens ns (snd ?sh)) + vtok > b
              then emit (Stdout (still_over_warning (fst (count_tokens ns (snd ?sh)) + vtok) b))
                     (snd (count_tokens ns (snd ?sh)))
              else snd (count_tokens ns (snd ?sh)))"
      by (rule eb)
  qed
qed

text \<open>
  Witness for C6: total 31160 against a budget of 25600, verbatim 24320; the second prompt
  asks for about 896 words (approx. 1280 tokens).
\<close>

theorem resummarize_with_target_is_best_effort_witness:
  "\<exists>new_summary st2 new_tokens st3.
     summarize_history (per_char_model 190 (GenText ''The student mixes up price and cost.''))
       [user_says ''a''] ''Physics'' (Some 1280)
       (emit (Stdout (targeting_note 1280)) (emit (Stdout (overflow_warning 31160 25600))
          (session (per_char_model 190 (GenText ''The student mixes up price and cost.'')) eleven_turns)))
       = (Inr new_summary, st2) \<and>
     (\<exists>es. trace st2 = es \<and>
           GenerateRequest (summary_prompt ''Physics'' ''User: a'' (length_guidance_text 896 1280))
             \<in> set es) \<and>
     count_tokens new_summary st2 = (new_tokens, st3) \<and>
     enforce_budget 25600 (per_char_model 190 (GenText ''The student mixes up price and cost.''))
       [user_says ''a''] (drop 1 eleven_turns) ''Physics'' ''The student mixes up price and cost.''
       6840 24320
       (session (per_char_model 190 (GenText ''The student mixes up price and cost.'')) eleven_turns) =
       (Inr (new_summary, drop 1 eleven_turns),
        if new_tokens + 24320 > 25600
        then emit (Stdout (still_over_warning (new_tokens + 24320) 25600)) st3
        else st3)"
proof -
  let ?m = "per_char_model 190 (GenText ''The student mixes up price and cost.'')"
  let ?st = "session ?m eleven_turns"
  have h1: "(6840::int) + 24320 > 25600" by simp
  have h2: "[user_says ''a''] \<noteq> []" by simp
  have h3: "(0::int) \<le> 25600 - 24320" by simp
  have h4: "(0::int) \<le> 24320" by simp
  have h5: "(25600::int) < 2 ^ 53" by simp
  have w: "py_int_times_float 1280 float_0_7 = Some 896"
    by (simp add: float_defs Let_def)
  have l: "summary_line (user_says ''a'') = ''User: a''"
    by (simp add: summary_line_def user_says_def strip_def isspace_def ascii_upper_def ascii_lower_def)
  have t: "trace ?st = []" by (simp add: session_def)
  from resummarize_with_target_is_best_effort [OF h1 h2 h3 h4 h5, of ?m "''Physics''" ?st
      "drop 1 eleven_turns" "''The student mixes up price and cost.''"]
  show ?thesis by (simp add: w l t)
qed

text \<open>
  C6 as stated fails: at 200 tokens per character the ten verbatim turns count exactly the
  budget, 25600, and the summary 200; the total is over budget and the allowed summary size
  is 0. The summarizer is called a second time, but with the same prompt as the first time:
  no length hint at all.
\<close>

theorem exact_fit_resummarizes_without_length_hint:
  "fst (initial_measurement (per_char_model 200 (GenText ''S'')) [user_says ''a'']
          (drop 1 eleven_turns) ''Physics''
          (session (per_char_model 200 (GenText ''S'')) eleven_turns)) = Inr (''S'', 200, 25600) \<and>
   history_token_budget shipped = Some 25600 \<and>
   filter is_generate_request
     (trace (snd (manage_history_and_get_context shipped (per_char_model 200 (GenText ''S'')) []
                    0 ''Physics'' (session (per_char_model 200 (GenText ''S'')) eleven_turns)))) =
     [GenerateRequest (summary_prompt ''Physics'' ''User: a'' []),
      GenerateRequest (summary_prompt ''Physics'' ''User: a'' [])]"
  by (simp add: run_defs shipped_budget shipped_last summary_line_def)

text \<open>
  C7. \<open>count_tokens\<close> returns 0 for the empty text without calling the service; when the
  service raises, it returns 0, records a warning on stderr and returns normally; when the
  service keeps its contract (successful counts are non-negative) the result is
  non-negative. A manager whose token counting always fails treats every count as 0 and
  still returns the context block with the whole verbatim window.
\<close>

theorem count_tokens_degrades_to_zero:
  "fst (count_tokens [] st) = 0 \<and>
   (\<forall>m. model_instance st = Some m \<longrightarrow> count_tokens [] st = (0, st)) \<and>
   (\<forall>m e w. model_instance st = Some m \<and> text \<noteq> [] \<and>
        count_tokens_rpc m (remote st) text = (TokRaises e, w) \<longrightarrow>
        fst (count_tokens text st) = 0 \<and>
        (\<exists>msg. trace (snd (count_tokens text st)) = trace st @ [CountRequest text, Stderr msg])) \<and>
   ((\<forall>m. model_instance st = Some m \<longrightarrow> counts_nonneg m) \<longrightarrow> 0 \<le> fst (count_tokens text st)) \<and>
   (\<forall>m b. model_instance st = Some m \<and> counting_unavailable m \<and>
        history_token_budget cfg = Some b \<and> 0 \<le> b \<longrightarrow>
        (\<exists>s st'. manage_history_and_get_context cfg model prev chat_history discipline st =
           (Inr (format_history_for_prompt s (snd (split_history cfg (turn_lists st chat_history))), s),
            st')))"
proof (intro conjI allI impI)
  show "fst (count_tokens [] st) = 0" by (rule count_tokens_empty)
next
  fix m assume "model_instance st = Some m"
  then show "count_tokens [] st = (0, st)" by (rule count_tokens_empty_state)
next
  fix m e w
  assume "model_instance st = Some m \<and> text \<noteq> [] \<and>
          count_tokens_rpc m (remote st) text = (TokRaises e, w)"
  then show "fst (count_tokens text st) = 0"
    and "\<exists>msg. trace (snd (count_tokens text st)) = trace st @ [CountRequest text, Stderr msg]"
    using count_tokens_raises [of st m "text" e w] by simp_all
next
  assume "\<forall>m. model_instance st = Some m \<longrightarrow> counts_nonneg m"
  then show "0 \<le> fst (count_tokens text st)" by (rule count_tokens_nonneg)
next
  fix m b
  assume a: "model_instance st = Some m \<and> counting_unavailable m \<and>
             history_token_budget cfg = Some b \<and> 0 \<le> b"
  obtain older verbatim where sp: "split_history cfg (turn_lists st chat_history) = (older, verbatim)"
    by (cases "split_history cfg (turn_lists st chat_history)")
  obtain s1 st1 where im: "initial_measurement model older verbatim discipline st =
       (Inr (s1, fst (count_tokens s1 st1),
             fst (count_tokens (verbatim_turns_text verbatim) (snd (count_tokens s1 st1)))),
        snd (count_tokens (verbatim_turns_text verbatim) (snd (count_tokens s1 st1))))"
    and ext: "extends st st1"
    using initial_measurement_cases [of model older verbatim discipline st] by blast
  from ext a have m1: "model_instance st1 = Some m" by (simp add: extends_def)
  with count_tokens_extends [of st1 s1] have m2: "model_instance (snd (count_tokens s1 st1)) = Some m"
    by (simp add: extends_def)
  from a have cu: "counting_unavailable m" by simp
  have z1: "fst (count_tokens s1 st1) = 0" by (rule count_tokens_unavailable [OF cu m1])
  have z2: "fst (count_tokens (verbatim_turns_text verbatim) (snd (count_tokens s1 st1))) = 0"
    by (rule count_tokens_unavailable [OF cu m2])
  from a have b: "history_token_budget cfg = Some b" and b0: "0 + 0 \<le> b" by simp_all
  have "budgeted_history cfg model prev chat_history discipline st =
      (Inr (s1, verbatim), snd (count_tokens (verbatim_turns_text verbatim) (snd (count_tokens s1 st1))))"
    using budgeted_history_unfold [OF b sp im] enforce_budget_within [OF b0]
    by (simp add: z1 z2)
  from manage_unfold [OF this] sp
  show "\<exists>s st'. manage_history_and_get_context cfg model prev chat_history discipline st =
           (Inr (format_history_for_prompt s (snd (split_history cfg (turn_lists st chat_history))), s),
            st')"
    by auto
qed

text \<open>
  Witness for C7: a service on which every call fails; the count is 0 and the single turn is
  still rendered.
\<close>

theorem count_tokens_degrades_to_zero_witness:
  "fst (count_tokens ''user: hello'' (session broken_model [user_says ''hello''])) = 0 \<and>
   fst (manage_history_and_get_context shipped broken_model [] 0 ''Physics''
          (session broken_model [user_says ''hello''])) =
     Inr (''Conversation History (Recent Turns Only):'' @ NL @ ''- User:'' @ NL @ ''  hello'', [])"
proof -
  let ?st = "session broken_model [user_says ''hello'']"
  have mi: "model_instance ?st = Some broken_model" by (simp add: session_def)
  have cu: "counting_unavailable broken_model"
    by (simp add: counting_unavailable_def broken_model_def)
  have rpc: "count_tokens_rpc broken_model (remote ?st) ''user: hello'' =
      (TokRaises (OtherException ''timed out''), ())"
    by (simp add: broken_model_def)
  have nn: "\<forall>m. model_instance ?st = Some m \<longrightarrow> counts_nonneg m"
    by (simp add: session_def counts_nonneg_def broken_model_def)
  note t = count_tokens_degrades_to_zero [of ?st "''user: hello''" shipped broken_model "[]" 0 "''Physics''"]
  from t mi rpc have "fst (count_tokens ''user: hello'' ?st) = 0" by blast
  moreover from t mi cu shipped_budget
  obtain s st' where r: "manage_history_and_get_context shipped broken_model [] 0 ''Physics'' ?st =
      (Inr (format_history_for_prompt s (snd (split_history shipped (turn_lists ?st 0))), s), st')"
    by (metis zero_le_numeral)
  have "fst (manage_history_and_get_context shipped broken_model [] 0 ''Physics'' ?st) =
     Inr (''Conversation History (Recent Turns Only):'' @ NL @ ''- User:'' @ NL @ ''  hello'', [])"
    by (simp add: run_defs shipped_budget shipped_last broken_model_def)
  ultimately show ?thesis by simp
qed

text \<open>
  C8 (as amended). Every single call of \<open>summarize_history\<close> on a non-empty list of turns in
  which the service raises or returns no usable output returns normally one of the three
  bracketed placeholder strings (by kind of failure), whatever happens on other calls.
  \<open>format_history_for_prompt\<close> renders any of them, with any verbatim turns, as a block whose
  summary section holds that string. When the manager's first summarizer call fails, the
  manager returns normally (verbatim count non-negative, budget below 2^53): if the first
  measurement is within budget, the block is the formatting of that placeholder with the
  verbatim window; if the summary has to be re-targeted, the block holds what the second
  call returned (again a placeholder if that call fails too); if the hard-overflow branch is
  taken, the placeholder is replaced by the discard marker and the block holds no turn.
\<close>

theorem failed_summary_call_yields_placeholder:
  assumes "older \<noteq> []"
    and "split_history cfg (turn_lists st chat_history) = (older, verbatim)"
    and "history_token_budget cfg = Some b"
    and "generate_content model (remote st)
           (summary_prompt discipline (join NL (map summary_line older)) []) = (out, w)"
    and "\<forall>t. out \<noteq> GenText t"
    and "initial_measurement model older verbatim discipline st = (Inr (s1, stok, vtok), st1)"
    and "0 \<le> vtok" and "b < 2 ^ 53"
  shows "(\<forall>target words st2 out2 w2.
            (wants_length_guidance target \<longrightarrow>
               py_int_times_float (the target) float_0_7 = Some words) \<and>
            generate_content model (remote st2)
              (summary_prompt discipline (join NL (map summary_line older))
                 (if wants_length_guidance target
                  then length_guidance_text words (the target) else [])) = (out2, w2) \<and>
            (\<forall>t. out2 \<noteq> GenText t) \<longrightarrow>
            (\<exists>p \<in> failure_placeholders.
               fst (summarize_history model older discipline target st2) = Inr p \<and>
               (out2 = GenUnusable \<longrightarrow> p = ''[Summarization failed]'') \<and>
               (\<forall>e. out2 = GenRaises e \<longrightarrow>
                  p = (if is_google_api_error e
                       then ''[Summarization failed due to API error]''
                       else ''[Summarization failed due to unexpected error]'')))) \<and>
         fst (summarize_history model older discipline None st) = Inr s1 \<and>
         s1 \<in> failure_placeholders \<and>
         (\<forall>p \<in> failure_placeholders. \<forall>v.
            format_history_for_prompt p v =
              ''Summary of Older Conversation Turns:'' @ NL @ ''  '' @ p @ NL @ NL
              @ ''Recent Verbatim Conversation Turns:'' @ NL
              @ (if v = [] then ''  (No recent verbatim turns available)''
                 else join NL (map render_turn v))) \<and>
         (\<exists>block s st'.
            manage_history_and_get_context cfg model prev chat_history discipline st =
              (Inr (block, s), st') \<and>
            (if stok + vtok > b \<and> b - vtok < 0
             then s = ''[History discarded due to excessive verbatim length]'' \<and>
                  block = format_history_for_prompt s []
             else if stok + vtok > b
             then fst (summarize_history model older discipline (Some (b - vtok))
                         (emit (Stdout (targeting_note (b - vtok)))
                            (emit (Stdout (overflow_warning (stok + vtok) b)) st1))) = Inr s \<and>
                  block = format_history_for_prompt s verbatim \<and>
                  (\<forall>words out2 w2.
                     (wants_length_guidance (Some (b - vtok)) \<longrightarrow>
                        py_int_times_float (b - vtok) float_0_7 = Some words) \<and>
                     generate_content model (remote st1)
                       (summary_prompt discipline (join NL (map summary_line older))
                          (if wants_length_guidance (Some (b - vtok))
                           then length_guidance_text words (b - vtok) else [])) = (out2, w2) \<and>
                     (\<forall>t. out2 \<noteq> GenText t) \<longrightarrow>
                     s \<in> failure_placeholders)
             else s = s1 \<and> block = format_history_for_prompt s1 verbatim))"
proof (intro conjI)
  show "\<forall>target words st2 out2 w2.
            (wants_length_guidance target \<longrightarrow>
               py_int_times_float (the target) float_0_7 = Some words) \<and>
            generate_content model (remote st2)
              (summary_prompt discipline (join NL (map summary_line older))
                 (if wants_length_guidance target
                  then length_guidance_text words (the target) else [])) = (out2, w2) \<and>
            (\<forall>t. out2 \<noteq> GenText t) \<longrightarrow>
            (\<exists>p \<in> failure_placeholders.
               fst (summarize_history model older discipline target st2) = Inr p \<and>
               (out2 = GenUnusable \<longrightarrow> p = ''[Summarization failed]'') \<and>
               (\<forall>e. out2 = GenRaises e \<longrightarrow>
                  p = (if is_google_api_error e
                       then ''[Summarization failed due to API error]''
                       else ''[Summarization failed due to unexpected error]'')))"
  proof (intro allI impI, elim conjE)
    fix target words out2 w2 and st2 :: "'a state"
    assume g: "wants_length_guidance target \<longrightarrow>
               py_int_times_float (the target) float_0_7 = Some words"
      and c: "generate_content model (remote st2)
              (summary_prompt discipline (join NL (map summary_line older))
                 (if wants_length_guidance target
                  then length_guidance_text words (the target) else [])) = (out2, w2)"
      and f: "\<forall>t. out2 \<noteq> GenText t"
    let ?p = "case out2 of
            GenText t \<Rightarrow> strip t
          | GenUnusable \<Rightarrow> ''[Summarization failed]''
          | GenRaises e \<Rightarrow> if is_google_api_error e
                           then ''[Summarization failed due to API error]''
                           else ''[Summarization failed due to unexpected error]''"
    have "?p \<in> failure_placeholders" by (rule failed_outcome_placeholder [OF f])
    moreover have "fst (summarize_history model older discipline target st2) = Inr ?p"
      by (rule summarize_history_outcome [OF assms(1) g c])
    moreover have "out2 = GenUnusable \<longrightarrow> ?p = ''[Summarization failed]''" by simp
    moreover have "\<forall>e. out2 = GenRaises e \<longrightarrow>
                  ?p = (if is_google_api_error e
                       then ''[Summarization failed due to API error]''
                       else ''[Summarization failed due to unexpected error]'')" by simp
    ultimately show "\<exists>p \<in> failure_placeholders.
               fst (summarize_history model older discipline target st2) = Inr p \<and>
               (out2 = GenUnusable \<longrightarrow> p = ''[Summarization failed]'') \<and>
               (\<forall>e. out2 = GenRaises e \<longrightarrow>
                  p = (if is_google_api_error e
                       then ''[Summarization failed due to API error]''
                       else ''[Summarization failed due to unexpected error]''))"
      by blast
  qed
next
  show first: "fst (summarize_history model older discipline None st) = Inr s1"
    by (rule initial_measurement_older [OF assms(1,6)])
  have "fst (summarize_history model older discipline None st) =
     Inr (case out of
            GenText t \<Rightarrow> strip t
          | GenUnusable \<Rightarrow> ''[Summarization failed]''
          | GenRaises e \<Rightarrow> if is_google_api_error e
                           then ''[Summarization failed due to API error]''
                           else ''[Summarization failed due to unexpected error]'')"
    using assms(4) by (intro summarize_history_outcome [OF assms(1)]) simp_all
  with first failed_outcome_placeholder [OF assms(5)]
  show "s1 \<in> failure_placeholders" by simp
next
  show "\<forall>p \<in> failure_placeholders. \<forall>v.
            format_history_for_prompt p v =
              ''Summary of Older Conversation Turns:'' @ NL @ ''  '' @ p @ NL @ NL
              @ ''Recent Verbatim Conversation Turns:'' @ NL
              @ (if v = [] then ''  (No recent verbatim turns available)''
                 else join NL (map render_turn v))"
    using placeholder_single_line format_with_summary by blast
next
  let ?eb = "enforce_budget b model older verbatim discipline s1 stok vtok st1"
  let ?bh = "budgeted_history cfg model prev chat_history discipline st"
  have bh: "?bh = ?eb" by (rule budgeted_history_unfold [OF assms(3,2,6)])
  obtain s v where f: "fst ?eb = Inr (s, v)"
    using enforce_budget_returns [OF assms(7,8)] by blast
  then have eb: "?eb = (Inr (s, v), snd ?eb)" by (metis prod.collapse)
  have e: "older = [] \<longrightarrow> s1 = []" using assms(1) by simp
  note oc = enforce_budget_outcome [OF e eb]
  have m: "manage_history_and_get_context cfg model prev chat_history discipline st =
      (Inr (format_history_for_prompt s v, s), snd ?eb)"
    by (rule manage_unfold) (simp add: bh f prod_eq_iff)
  define Q where "Q = (\<lambda>x. \<forall>words out2 w2.
         (wants_length_guidance (Some (b - vtok)) \<longrightarrow>
            py_int_times_float (b - vtok) float_0_7 = Some words) \<and>
         generate_content model (remote st1)
           (summary_prompt discipline (join NL (map summary_line older))
              (if wants_length_guidance (Some (b - vtok))
               then length_guidance_text words (b - vtok) else [])) = (out2, w2) \<and>
         (\<forall>t. out2 \<noteq> GenText t) \<longrightarrow>
         x \<in> failure_placeholders)"
  have ph: "Q s"
    if r: "fst (summarize_history model older discipline (Some (b - vtok))
             (emit (Stdout (targeting_note (b - vtok)))
                (emit (Stdout (overflow_warning (stok + vtok) b)) st1))) = Inr s"
    unfolding Q_def
  proof (intro allI impI, elim conjE)
    fix words out2 w2
    assume g: "wants_length_guidance (Some (b - vtok)) \<longrightarrow>
             py_int_times_float (b - vtok) float_0_7 = Some words"
      and c: "generate_content model (remote st1)
             (summary_prompt discipline (join NL (map summary_line older))
                (if wants_length_guidance (Some (b - vtok))
                 then length_guidance_text words (b - vtok) else [])) = (out2, w2)"
      and u: "\<forall>t. out2 \<noteq> GenText t"
    have "fst (summarize_history model older discipline (Some (b - vtok))
             (emit (Stdout (targeting_note (b - vtok)))
                (emit (Stdout (overflow_warning (stok + vtok) b)) st1))) =
        Inr (case out2 of
            GenText t \<Rightarrow> strip t
          | GenUnusable \<Rightarrow> ''[Summarization failed]''
          | GenRaises e \<Rightarrow> if is_google_api_error e
                           then ''[Summarization failed due to API error]''
                           else ''[Summarization failed due to unexpected error]'')"
    proof (rule summarize_history_outcome [OF assms(1)])
      show "wants_length_guidance (Some (b - vtok)) \<longrightarrow>
            py_int_times_float (the (Some (b - vtok))) float_0_7 = Some words"
        using g by simp
      show "generate_content model
              (remote (emit (Stdout (targeting_note (b - vtok)))
                 (emit (Stdout (overflow_warning (stok + vtok) b)) st1)))
              (summary_prompt discipline (join NL (map summary_line older))
                 (if wants_length_guidance (Some (b - vtok))
                  then length_guidance_text words (the (Some (b - vtok))) else [])) = (out2, w2)"
        using c by (cases "wants_length_guidance (Some (b - vtok))") simp_all
    qed
    with r failed_outcome_placeholder [OF u] show "s \<in> failure_placeholders" by simp
  qed
  have fin: "if stok + vtok > b \<and> b - vtok < 0
             then s = ''[History discarded due to excessive verbatim length]'' \<and>
                  format_history_for_prompt s v = format_history_for_prompt s []
             else if stok + vtok > b
             then fst (summarize_history model older discipline (Some (b - vtok))
                         (emit (Stdout (targeting_note (b - vtok)))
                            (emit (Stdout (overflow_warning (stok + vtok) b)) st1))) = Inr s \<and>
                  format_history_for_prompt s v = format_history_for_prompt s verbatim \<and>
                  Q s
             else s = s1 \<and> format_history_for_prompt s v = format_history_for_prompt s1 verbatim"
    using oc assms(1) ph by (auto simp: discarded_marker_def split: if_splits)
  have "\<exists>block s st'.
            manage_history_and_get_context cfg model prev chat_history discipline st =
              (Inr (block, s), st') \<and>
            (if stok + vtok > b \<and> b - vtok < 0
             then s = ''[History discarded due to excessive verbatim length]'' \<and>
                  block = format_history_for_prompt s []
             else if stok + vtok > b
             then fst (summarize_history model older discipline (Some (b - vtok))
                         (emit (Stdout (targeting_note (b - vtok)))
                            (emit (Stdout (overflow_warning (stok + vtok) b)) st1))) = Inr s \<and>
                  block = format_history_for_prompt s verbatim \<and>
                  Q s
             else s = s1 \<and> block = format_history_for_prompt s1 verbatim)"
    using m fin by blast
  then show "\<exists>block s st'.
            manage_history_and_get_context cfg model prev chat_history discipline st =
              (Inr (block, s), st') \<and>
            (if stok + vtok > b \<and> b - vtok < 0
             then s = ''[History discarded due to excessive verbatim length]'' \<and>
                  block = format_history_for_prompt s []
             else if stok + vtok > b
             then fst (summarize_history model older discipline (Some (b - vtok))
                         (emit (Stdout (targeting_note (b - vtok)))
                            (emit (Stdout (overflow_warning (stok + vtok) b)) st1))) = Inr s \<and>
                  block = format_history_for_prompt s verbatim \<and>
                  (\<forall>words out2 w2.
                     (wants_length_guidance (Some (b - vtok)) \<longrightarrow>
                        py_int_times_float (b - vtok) float_0_7 = Some words) \<and>
                     generate_content model (remote st1)
                       (summary_prompt discipline (join NL (map summary_line older))
                          (if wants_length_guidance (Some (b - vtok))
                           then length_guidance_text words (b - vtok) else [])) = (out2, w2) \<and>
                     (\<forall>t. out2 \<noteq> GenText t) \<longrightarrow>
                     s \<in> failure_placeholders)
             else s = s1 \<and> block = format_history_for_prompt s1 verbatim)"
    unfolding Q_def .
qed

text \<open>
  Witness for C8: eleven turns, one token per character, a summarizer that raises an API
  error; the block holds the placeholder in its summary section and the last ten turns.
\<close>

theorem failed_summary_call_yields_placeholder_witness:
  "fst (manage_history_and_get_context shipped
          (per_char_model 1 (GenRaises (GoogleAPIError ''503 unavailable''))) [] 0 ''Physics''
          (session (per_char_model 1 (GenRaises (GoogleAPIError ''503 unavailable''))) eleven_turns)) =
     Inr (format_history_for_prompt ''[Summarization failed due to API error]'' (drop 1 eleven_turns),
          ''[Summarization failed due to API error]'') \<and>
   format_history_for_prompt ''[Summarization failed due to API error]'' (drop 1 eleven_turns) =
     ''Summary of Older Conversation Turns:'' @ NL @ ''  [Summarization failed due to API error]''
     @ NL @ NL @ ''Recent Verbatim Conversation Turns:'' @ NL
     @ join NL (map render_turn (drop 1 eleven_turns))"
proof -
  let ?m = "per_char_model 1 (GenRaises (GoogleAPIError ''503 unavailable''))"
  let ?st = "session ?m eleven_turns"
  have h1: "[user_says ''a''] \<noteq> []" by simp
  have h2: "split_history shipped (turn_lists ?st 0) = ([user_says ''a''], drop 1 eleven_turns)"
    by (simp add: split_history_def shipped_last session_def eleven_turns_def)
  have h4: "generate_content ?m (remote ?st)
      (summary_prompt ''Physics'' (join NL (map summary_line [user_says ''a''])) []) =
      (GenRaises (GoogleAPIError ''503 unavailable''), ())"
    by (simp add: per_char_model_def)
  have h5: "\<forall>t. GenRaises (GoogleAPIError ''503 unavailable'') \<noteq> GenText t" by simp
  have h6: "initial_measurement ?m [user_says ''a''] (drop 1 eleven_turns) ''Physics'' ?st =
      (Inr (''[Summarization failed due to API error]'', 39, 128),
       snd (initial_measurement ?m [user_says ''a''] (drop 1 eleven_turns) ''Physics'' ?st))"
    by (simp add: run_defs)
  have h7: "(0::int) \<le> 128" by simp
  have h8: "(25600::int) < 2 ^ 53" by simp
  have ne: "drop 1 eleven_turns \<noteq> []" by (simp add: eleven_turns_def)
  note inst = failed_summary_call_yields_placeholder [OF h1 h2 shipped_budget h4 h5 h6 h7 h8,
      of "[]"]
  from inst [THEN conjunct2, THEN conjunct2, THEN conjunct2, THEN conjunct2] have "\<exists>block s st'.
      manage_history_and_get_context shipped ?m [] 0 ''Physics'' ?st = (Inr (block, s), st') \<and>
      s = ''[Summarization failed due to API error]'' \<and>
      block = format_history_for_prompt ''[Summarization failed due to API error]''
                (drop 1 eleven_turns)"
    by simp
  then have a: "fst (manage_history_and_get_context shipped ?m [] 0 ''Physics'' ?st) =
     Inr (format_history_for_prompt ''[Summarization failed due to API error]'' (drop 1 eleven_turns),
          ''[Summarization failed due to API error]'')"
    by auto
  from inst have "''[Summarization failed due to API error]'' \<in> failure_placeholders"
    and "\<forall>p \<in> failure_placeholders. \<forall>v.
            format_history_for_prompt p v =
              ''Summary of Older Conversation Turns:'' @ NL @ ''  '' @ p @ NL @ NL
              @ ''Recent Verbatim Conversation Turns:'' @ NL
              @ (if v = [] then ''  (No recent verbatim turns available)''
                 else join NL (map render_turn v))"
    by blast+
  then have "format_history_for_prompt ''[Summarization failed due to API error]''
      (drop 1 eleven_turns) =
     ''Summary of Older Conversation Turns:'' @ NL @ ''  '' @ ''[Summarization failed due to API error]''
     @ NL @ NL @ ''Recent Verbatim Conversation Turns:'' @ NL
     @ (if drop 1 eleven_turns = [] then ''  (No recent verbatim turns available)''
        else join NL (map render_turn (drop 1 eleven_turns)))"
    by blast
  with ne a show ?thesis by simp
qed

text \<open>
  C8 as stated fails: the summarizer raises an API error and \<open>summarize_history\<close> returns
  its placeholder, but at 4000 tokens per character the verbatim window exceeds the budget,
  so the block returned to the caller holds the discard marker in its summary section, not
  the placeholder.
\<close>

theorem failed_summary_replaced_by_marker_on_hard_overflow:
  "fst (summarize_history (per_char_model 4000 (GenRaises (GoogleAPIError ''503 unavailable'')))
          [user_says ''a''] ''Physics'' None
          (session (per_char_model 4000 (GenRaises (GoogleAPIError ''503 unavailable''))) eleven_turns)) =
     Inr ''[Summarization failed due to API error]'' \<and>
   fst (manage_history_and_get_context shipped
          (per_char_model 4000 (GenRaises (GoogleAPIError ''503 unavailable''))) [] 0 ''Physics''
          (session (per_char_model 4000 (GenRaises (GoogleAPIError ''503 unavailable''))) eleven_turns)) =
     Inr (''Summary of Older Conversation Turns:'' @ NL
          @ ''  [History discarded due to excessive verbatim length]'' @ NL @ NL
          @ ''Recent Verbatim Conversation Turns:'' @ NL
          @ ''  (No recent verbatim turns available)'',
          ''[History discarded due to excessive verbatim length]'')"
  by (simp add: run_defs shipped_budget shipped_last)

text \<open>
  C9 (as amended). \<open>configure_gemini\<close> ends the program at startup (exit status 1) exactly
  when the API key is missing or empty, when configuring the library or loading the model
  raises, or when the token-counting probe raises; otherwise it returns the model and stores
  it in the global. Its outcome does not depend on the context window, the budget ratio,
  the window size or PROMPT\_OVERHEAD\_ESTIMATE, and at request time the result of
  \<open>manage_history_and_get_context\<close> does not depend on PROMPT\_OVERHEAD\_ESTIMATE either (the
  other functions of the manager read no constant): the budget is never compared with the
  overhead, at startup or later. With the constants of the file the budget is 25600 and the
  overhead 500, so the condition does not arise there.
\<close>

theorem startup_checks_only_the_api:
  "configure_gemini (cfg\<lparr>MAX_CONTEXT_WINDOW := w, HISTORY_TOKEN_BUDGET_RATIO := r,
                         LAST_VERBATIM_TURNS := k, PROMPT_OVERHEAD_ESTIMATE := p\<rparr>) genai st =
     configure_gemini cfg genai st \<and>
   manage_history_and_get_context (cfg\<lparr>PROMPT_OVERHEAD_ESTIMATE := p\<rparr>) model prev chat_history
       discipline st2 =
     manage_history_and_get_context cfg model prev chat_history discipline st2 \<and>
   (fst (configure_gemini cfg genai st) = Inl (SystemExit 1) \<longleftrightarrow>
      API_KEY cfg = None \<or> API_KEY cfg = Some [] \<or>
      (\<exists>key e. API_KEY cfg = Some key \<and> fst (genai (remote st) key (MODEL_NAME cfg)) = Inl e) \<or>
      (\<exists>key m w' e. API_KEY cfg = Some key \<and> genai (remote st) key (MODEL_NAME cfg) = (Inr m, w') \<and>
                     fst (count_tokens_rpc m w' ''test'') = TokRaises e)) \<and>
   (\<forall>m. fst (configure_gemini cfg genai st) = Inr m \<longrightarrow>
        model_instance (snd (configure_gemini cfg genai st)) = Some m) \<and>
   (\<forall>e. fst (configure_gemini cfg genai st) = Inl e \<longrightarrow> e = SystemExit 1) \<and>
   history_token_budget (source_config key0) = Some 25600 \<and>
   PROMPT_OVERHEAD_ESTIMATE (source_config key0) = 500"
proof (intro conjI)
  show "configure_gemini (cfg\<lparr>MAX_CONTEXT_WINDOW := w, HISTORY_TOKEN_BUDGET_RATIO := r,
                         LAST_VERBATIM_TURNS := k, PROMPT_OVERHEAD_ESTIMATE := p\<rparr>) genai st =
     configure_gemini cfg genai st"
    by (simp add: configure_gemini_def
          cong: option.case_cong prod.case_cong sum.case_cong tok_outcome.case_cong if_cong)
  show "manage_history_and_get_context (cfg\<lparr>PROMPT_OVERHEAD_ESTIMATE := p\<rparr>) model prev chat_history
       discipline st2 =
     manage_history_and_get_context cfg model prev chat_history discipline st2"
    by (rule manage_ignores_overhead)
  show "fst (configure_gemini cfg genai st) = Inl (SystemExit 1) \<longleftrightarrow>
      API_KEY cfg = None \<or> API_KEY cfg = Some [] \<or>
      (\<exists>key e. API_KEY cfg = Some key \<and> fst (genai (remote st) key (MODEL_NAME cfg)) = Inl e) \<or>
      (\<exists>key m w' e. API_KEY cfg = Some key \<and> genai (remote st) key (MODEL_NAME cfg) = (Inr m, w') \<and>
                     fst (count_tokens_rpc m w' ''test'') = TokRaises e)"
    by (auto simp: configure_gemini_def split: option.splits prod.splits sum.splits tok_outcome.splits)
  show "\<forall>m. fst (configure_gemini cfg genai st) = Inr m \<longrightarrow>
        model_instance (snd (configure_gemini cfg genai st)) = Some m"
    by (auto simp: configure_gemini_def emit_def
             split: option.splits prod.splits sum.splits tok_outcome.splits if_splits)
  show "\<forall>e. fst (configure_gemini cfg genai st) = Inl e \<longrightarrow> e = SystemExit 1"
    by (auto simp: configure_gemini_def
             split: option.splits prod.splits sum.splits tok_outcome.splits if_splits)
  show "history_token_budget (source_config key0) = Some 25600" by (rule source_budget)
  show "PROMPT_OVERHEAD_ESTIMATE (source_config key0) = 500" by (simp add: source_config_def)
qed

text \<open>
  Witness for C9: the token-counting probe fails, so startup exits with status 1, whatever
  the numeric constants are.
\<close>

theorem startup_checks_only_the_api_witness:
  "fst (configure_gemini shipped (always_connects broken_model) fresh_process) = Inl (SystemExit 1) \<and>
   fst (configure_gemini (shipped\<lparr>MAX_CONTEXT_WINDOW := 500, HISTORY_TOKEN_BUDGET_RATIO := float_0_80,
          LAST_VERBATIM_TURNS := 10, PROMPT_OVERHEAD_ESTIMATE := 500\<rparr>)
          (always_connects broken_model) fresh_process) = Inl (SystemExit 1)"
proof -
  note t = startup_checks_only_the_api [where cfg = shipped and w = 500 and r = float_0_80
             and k = 10 and p = 500 and genai = "always_connects broken_model"
             and st = fresh_process]
  have k: "API_KEY shipped = Some ''secret-key''" by (simp add: shipped_def source_config_def)
  have g: "always_connects broken_model (remote fresh_process) ''secret-key'' (MODEL_NAME shipped) =
           (Inr broken_model, ())"
    by (simp add: always_connects_def)
  have c: "fst (count_tokens_rpc broken_model () ''test'') = TokRaises (OtherException ''timed out'')"
    by (simp add: broken_model_def)
  from t k g c have a: "fst (configure_gemini shipped (always_connects broken_model) fresh_process) =
      Inl (SystemExit 1)" by blast
  note same = t [THEN conjunct1]
  from a show ?thesis by (simp add: same)
qed

text \<open>
  C9 as stated fails: with MAX\_CONTEXT\_WINDOW edited to 500 the history budget is
  int(500 * 0.80) = 400, below the overhead of 500; startup succeeds and returns the model,
  and a first request is served as usual.
\<close>

theorem budget_below_overhead_starts_normally:
  "history_token_budget small_window = Some 400 \<and>
   PROMPT_OVERHEAD_ESTIMATE small_window = 500 \<and>
   fst (configure_gemini small_window (always_connects (per_char_model 1 (GenText ''S'')))
          fresh_process) = Inr (per_char_model 1 (GenText ''S'')) \<and>
   fst (manage_history_and_get_context small_window (per_char_model 1 (GenText ''S'')) [] 0
          ''Physics'' (session (per_char_model 1 (GenText ''S'')) [])) =
     Inr (''No conversation history for this concept yet.'', [])"
proof -
  have b: "history_token_budget small_window = Some 400"
    by (simp add: small_window_def shipped_def history_token_budget_def source_config_def
          py_int_times_float_def py_float_of_int_def float_0_80_def round53_def Let_def
          bit_length.simps)
  have o: "PROMPT_OVERHEAD_ESTIMATE small_window = 500"
    by (simp add: small_window_def shipped_def source_config_def)
  have c: "fst (configure_gemini small_window (always_connects (per_char_model 1 (GenText ''S'')))
          fresh_process) = Inr (per_char_model 1 (GenText ''S''))"
    by (simp add: configure_gemini_def small_window_def shipped_def source_config_def
          always_connects_def fresh_process_def per_char_model_def)
  have l: "LAST_VERBATIM_TURNS small_window = 10"
    by (simp add: small_window_def shipped_def source_config_def)
  have m: "fst (manage_history_and_get_context small_window (per_char_model 1 (GenText ''S'')) [] 0
          ''Physics'' (session (per_char_model 1 (GenText ''S'')) [])) =
     Inr (''No conversation history for this concept yet.'', [])"
    by (simp add: run_defs b l)
  from b o c m show ?thesis by simp
qed

text \<open>
  C10. For every turn log and fixed oracle behaviour (the same state \<open>st\<close>), the result of
  \<open>manage_history_and_get_context\<close> (context block, updated summary and final state) is the
  same for any two values of the previous-summary argument, and the turn log object that
  was passed in is left unmodified by the call.
\<close>

theorem previous_summary_irrelevant_and_log_untouched:
  "manage_history_and_get_context cfg model s1 chat_history discipline st =
   manage_history_and_get_context cfg model s2 chat_history discipline st \<and>
   turn_lists (snd (manage_history_and_get_context cfg model s1 chat_history discipline st)) =
   turn_lists st"
  using manage_extends [of st cfg model s1 chat_history discipline]
    manage_ignores_previous [of cfg model s1 chat_history discipline st s2]
  by (simp add: extends_def)
end
